theory Spec2Isabelle
  imports Main "HOL-Library.Char_ord" "HOL-Library.List_Lexorder"
begin

section \<open>Python values\<close>

text \<open>
  The handler in \<^verbatim>\<open>lambda/src/job_def/register.py\<close> works on values decoded from JSON:
  the CloudFormation event, the job definition parsed by \<^verbatim>\<open>json.loads\<close> and the image
  descriptor. A dict is an association list in insertion order (its first binding of a key
  is the one a lookup finds), a string is a list of characters read as code points below
  256, an integer is unbounded. Floating-point numbers are outside the model.
\<close>

datatype json =
    JNull
  | JBool bool
  | JInt int
  | JStr string
  | JList "json list"
  | JDict "(string \<times> json) list"

type_synonym 'v pydict = "(string \<times> 'v) list"

text \<open>
  The exceptions the code can raise itself are lookup and type failures; whatever the
  libraries raise (the JSON parser, the URL parser, the HTTP transport, the Batch client)
  is an error value of the same type, supplied by the environment.
\<close>

datatype error =
    KeyError string
  | TypeError
  | AttributeError
  | LibraryError string

text \<open>\<^verbatim>\<open>d[k]\<close> on a dict: the value, or KeyError.\<close>

definition getitem :: "'v pydict \<Rightarrow> string \<Rightarrow> error + 'v" where
  "getitem d k = (case map_of d k of None \<Rightarrow> Inl (KeyError k) | Some v \<Rightarrow> Inr v)"

text \<open>\<^verbatim>\<open>d.get(k)\<close>: the value, or None.\<close>

definition dict_get :: "json pydict \<Rightarrow> string \<Rightarrow> json" where
  "dict_get d k = (case map_of d k of None \<Rightarrow> JNull | Some v \<Rightarrow> v)"

text \<open>
  \<^verbatim>\<open>d[k] = v\<close> on a dict: an existing key keeps its position and gets the new value, a new
  key goes to the end.
\<close>

fun dict_set :: "string \<Rightarrow> 'v \<Rightarrow> 'v pydict \<Rightarrow> 'v pydict" where
  "dict_set k v [] = [(k, v)]"
| "dict_set k v ((k', v') # d) = (if k' = k then (k, v) # d else (k', v') # dict_set k v d)"

text \<open>
  \<^verbatim>\<open>x[k]\<close> with a string key on any value: only a dict can be indexed by a string; a list,
  a string, a number, a boolean and None raise TypeError.
\<close>

definition subscript :: "json \<Rightarrow> string \<Rightarrow> error + json" where
  "subscript x k = (case x of JDict d \<Rightarrow> getitem d k | _ \<Rightarrow> Inl TypeError)"

definition subscript2 :: "json \<Rightarrow> string \<Rightarrow> string \<Rightarrow> error + json" where
  "subscript2 x k1 k2 = (case subscript x k1 of Inl e \<Rightarrow> Inl e | Inr y \<Rightarrow> subscript y k2)"

text \<open>\<^verbatim>\<open>x += ys\<close> with a list on the right: a list is extended, any other value raises.\<close>

definition iadd :: "json \<Rightarrow> json list \<Rightarrow> error + json" where
  "iadd x ys = (case x of JList xs \<Rightarrow> Inr (JList (xs @ ys)) | _ \<Rightarrow> Inl TypeError)"

text \<open>
  A replacement field \<^verbatim>\<open>{v}\<close> of an f-string: a string is inserted as it is; for any
  other value the text is Python's \<^verbatim>\<open>str(v)\<close>, a parameter of the model.
\<close>

definition format_value :: "(json \<Rightarrow> string) \<Rightarrow> json \<Rightarrow> string" where
  "format_value py_str v = (case v of JStr s \<Rightarrow> s | _ \<Rightarrow> py_str v)"

section \<open>json.dumps\<close>

text \<open>
  The encoder of the standard library with its default \<^verbatim>\<open>ensure_ascii=True\<close>: inside a
  string the quote, the backslash and the control characters with a short form are
  escaped by a backslash and a letter, every other character outside the printable ASCII
  range becomes \<^verbatim>\<open>\u00XX\<close> with lower-case hexadecimal digits.
\<close>

definition hex_digit :: "nat \<Rightarrow> char" where
  "hex_digit n = ''0123456789abcdef'' ! (n mod 16)"

definition escape_char :: "char \<Rightarrow> string" where
  "escape_char c =
     (if c = CHR 0x22 then [CHR 0x5C, CHR 0x22]
      else if c = CHR 0x5C then [CHR 0x5C, CHR 0x5C]
      else if c = CHR 0x0A then [CHR 0x5C, CHR ''n'']
      else if c = CHR 0x0D then [CHR 0x5C, CHR ''r'']
      else if c = CHR 0x09 then [CHR 0x5C, CHR ''t'']
      else if c = CHR 0x08 then [CHR 0x5C, CHR ''b'']
      else if c = CHR 0x0C then [CHR 0x5C, CHR ''f'']
      else if (of_char c :: nat) < 32 \<or> 126 < (of_char c :: nat)
        then [CHR 0x5C, CHR ''u'', CHR ''0'', CHR ''0'',
              hex_digit (of_char c div 16), hex_digit (of_char c mod 16)]
      else [c])"

definition encode_basestring_ascii :: "string \<Rightarrow> string" where
  "encode_basestring_ascii s = [CHR 0x22] @ concat (map escape_char s) @ [CHR 0x22]"

fun dec_digits :: "nat \<Rightarrow> string" where
  "dec_digits n =
     (if n < 10 then [''0123456789'' ! n]
      else dec_digits (n div 10) @ [''0123456789'' ! (n mod 10)])"

declare dec_digits.simps [simp del]

definition int_repr :: "int \<Rightarrow> string" where
  "int_repr i = (if i < 0 then CHR ''-'' # dec_digits (nat (- i)) else dec_digits (nat i))"

text \<open>\<^verbatim>\<open>sep.join(parts)\<close>.\<close>

fun str_join :: "string \<Rightarrow> string list \<Rightarrow> string" where
  "str_join sep [] = []"
| "str_join sep [x] = x"
| "str_join sep (x # y # ys) = x @ sep @ str_join sep (y # ys)"

text \<open>The size of a value bounds the sizes of its parts.\<close>

lemma size_json_member: "x \<in> set xs \<Longrightarrow> size x < Suc (size_list size xs)"
  by (induction xs) auto

lemma size_json_item:
  "(k, v) \<in> set d \<Longrightarrow> size v < Suc (size_list (size_prod (\<lambda>_. 0) size) d)"
  by (induction d) auto

text \<open>
  \<^verbatim>\<open>json.dumps(obj, sort_keys=sk, separators=(isep, ksep))\<close>. With \<^verbatim>\<open>sort_keys\<close> the
  items of a dict are written in the order of \<^verbatim>\<open>sorted(d.items())\<close>, which for the
  distinct string keys of a dict is the ascending order of the keys by code point (the
  order of \<^typ>\<open>string\<close> here); the sort is stable.
\<close>

function json_dumps :: "bool \<Rightarrow> string \<Rightarrow> string \<Rightarrow> json \<Rightarrow> string" where
  "json_dumps sk isep ksep JNull = ''null''"
| "json_dumps sk isep ksep (JBool b) = (if b then ''true'' else ''false'')"
| "json_dumps sk isep ksep (JInt i) = int_repr i"
| "json_dumps sk isep ksep (JStr s) = encode_basestring_ascii s"
| "json_dumps sk isep ksep (JList xs) =
     ''['' @ str_join isep (map (json_dumps sk isep ksep) xs) @ '']''"
| "json_dumps sk isep ksep (JDict d) =
     ''{'' @ str_join isep
        (map (\<lambda>(k, v). encode_basestring_ascii k @ ksep @ json_dumps sk isep ksep v)
             (if sk then sort_key fst d else d)) @ ''}''"
  by pat_completeness auto

termination json_dumps
  apply (relation "measure (\<lambda>(sk, isep, ksep, j). size j)")
  apply (auto simp: size_json_member size_json_item split: if_splits)
  done

section \<open>The object store\<close>

text \<open>
  \<^verbatim>\<open>edit_spec\<close> copies its argument with \<^verbatim>\<open>dict.copy\<close> and then updates objects reached
  through the copy, so what the caller sees afterwards depends on which objects the copy
  shares with the original. The store makes that explicit: a dict object of the top level
  maps each key to the address of a value object, and the value objects are kept as trees.
  Updating a list or a dict in place is an update of the tree at its address; every
  reference to that address sees it.
\<close>

type_synonym addr = nat

record store =
  dicts :: "addr \<Rightarrow> addr pydict"
  cells :: "addr \<Rightarrow> json"
  fresh :: addr

definition empty_store :: store where
  "empty_store = \<lparr>dicts = (\<lambda>_. []), cells = (\<lambda>_. JNull), fresh = 0\<rparr>"

definition alloc_cell :: "store \<Rightarrow> json \<Rightarrow> store \<times> addr" where
  "alloc_cell st v =
     (st\<lparr>cells := (cells st)(fresh st := v), fresh := Suc (fresh st)\<rparr>, fresh st)"

definition alloc_dict :: "store \<Rightarrow> addr pydict \<Rightarrow> store \<times> addr" where
  "alloc_dict st d =
     (st\<lparr>dicts := (dicts st)(fresh st := d), fresh := Suc (fresh st)\<rparr>, fresh st)"

text \<open>\<^verbatim>\<open>d.copy()\<close>: a new dict object with the same keys and the same references.\<close>

definition dict_copy :: "store \<Rightarrow> addr \<Rightarrow> store \<times> addr" where
  "dict_copy st d = alloc_dict st (dicts st d)"

text \<open>\<^verbatim>\<open>d[k] = <object at a>\<close> on a dict object of the top level.\<close>

definition dict_setitem :: "store \<Rightarrow> addr \<Rightarrow> string \<Rightarrow> addr \<Rightarrow> store" where
  "dict_setitem st d k a = st\<lparr>dicts := (dicts st)(d := dict_set k a (dicts st d))\<rparr>"

text \<open>
  \<^verbatim>\<open>x[k] = v\<close> on the value object at address \<open>a\<close>: a dict is updated in place, any
  other value does not support item assignment with a string key.
\<close>

definition nested_setitem :: "store \<Rightarrow> addr \<Rightarrow> string \<Rightarrow> json \<Rightarrow> store \<times> (error + unit)" where
  "nested_setitem st a k v =
     (case cells st a of
        JDict d \<Rightarrow> (st\<lparr>cells := (cells st)(a := JDict (dict_set k v d))\<rparr>, Inr ())
      | _ \<Rightarrow> (st, Inl TypeError))"

text \<open>
  The dict object for a parsed JSON object: one fresh value object per item, in order,
  then the dict that refers to them. Nothing is shared between the items.
\<close>

fun alloc_items :: "store \<Rightarrow> json pydict \<Rightarrow> store \<times> addr pydict" where
  "alloc_items st [] = (st, [])"
| "alloc_items st ((k, v) # d) =
     (case alloc_cell st v of (st1, a) \<Rightarrow>
      case alloc_items st1 d of (st2, items) \<Rightarrow> (st2, (k, a) # items))"

definition new_dict :: "store \<Rightarrow> json pydict \<Rightarrow> store \<times> addr" where
  "new_dict st d = (case alloc_items st d of (st1, items) \<Rightarrow> alloc_dict st1 items)"

text \<open>What a holder of the dict at address \<open>d\<close> sees: its keys with the current values.\<close>

definition view :: "store \<Rightarrow> addr \<Rightarrow> json" where
  "view st d = JDict (map (\<lambda>(k, a). (k, cells st a)) (dicts st d))"

section \<open>edit_spec\<close>

text \<open>\<^verbatim>\<open>os.environ[k]\<close>.\<close>

definition environ_getitem :: "(string \<rightharpoonup> string) \<Rightarrow> string \<Rightarrow> error + string" where
  "environ_getitem environ k = (case environ k of None \<Rightarrow> Inl (KeyError k) | Some v \<Rightarrow> Inr v)"

text \<open>The list on the right of \<^verbatim>\<open>+=\<close> in lines 70 to 73.\<close>

definition appended :: "json \<Rightarrow> json \<Rightarrow> string \<Rightarrow> string \<Rightarrow> json list" where
  "appended wf_name step_name region acct_num =
     [JDict [(''name'', JStr ''BC_WORKFLOW_NAME''), (''value'', wf_name)],
      JDict [(''name'', JStr ''BC_STEP_NAME''), (''value'', step_name)],
      JDict [(''name'', JStr ''AWS_DEFAULT_REGION''), (''value'', JStr region)],
      JDict [(''name'', JStr ''AWS_ACCOUNT_ID''), (''value'', JStr acct_num)]]"

text \<open>
  Sequencing of statements that may raise: \<open>attempt\<close> evaluates an expression in the
  current store and stops with its exception, \<open>and_then\<close> continues from the store that a
  statement leaves.
\<close>

definition attempt ::
  "store \<Rightarrow> error + 'a \<Rightarrow> ('a \<Rightarrow> store \<times> (error + 'b)) \<Rightarrow> store \<times> (error + 'b)" where
  "attempt st r f = (case r of Inl e \<Rightarrow> (st, Inl e) | Inr x \<Rightarrow> f x)"

definition and_then ::
  "store \<times> (error + 'a) \<Rightarrow> (store \<Rightarrow> 'a \<Rightarrow> store \<times> (error + 'b)) \<Rightarrow> store \<times> (error + 'b)" where
  "and_then m f = (case m of (st, r) \<Rightarrow> (case r of Inl e \<Rightarrow> (st, Inl e) | Inr x \<Rightarrow> f st x))"

text \<open>
  The function, statement by statement. The augmented assignment of lines 70 to 73 reads
  \<^verbatim>\<open>ret["containerProperties"]\<close> and its \<^verbatim>\<open>"environment"\<close> first, then builds the list on
  the right (reading the two environment variables), then extends the list in place.
  Lines 74 and 75 evaluate the right-hand side before the target. The store is returned
  also when a statement raises: the statements before it have taken effect.
\<close>

definition edit_spec ::
  "(string \<rightharpoonup> string) \<Rightarrow> (json \<Rightarrow> string) \<Rightarrow> store \<Rightarrow> addr \<Rightarrow> json \<Rightarrow> json \<Rightarrow> json
     \<Rightarrow> store \<times> (error + addr)" where
  "edit_spec environ py_str st spec wf_name step_name img =
     (let (st1, ret) = dict_copy st spec;
          (st2, name) = alloc_cell st1
             (JStr (format_value py_str wf_name @ ''_'' @ format_value py_str step_name));
          st3 = dict_setitem st2 ret ''jobDefinitionName'' name
      in
      attempt st3 (getitem (dicts st3 ret) ''containerProperties'') (\<lambda>cp.
      attempt st3 (subscript (cells st3 cp) ''environment'') (\<lambda>env.
      attempt st3 (environ_getitem environ ''REGION'') (\<lambda>region.
      attempt st3 (environ_getitem environ ''ACCT_NUM'') (\<lambda>acct_num.
      attempt st3 (iadd env (appended wf_name step_name region acct_num)) (\<lambda>env'.
      and_then (nested_setitem st3 cp ''environment'' env') (\<lambda>st4 _.
      let image_json = json_dumps True '','' '':'' img in
      attempt st4 (getitem (dicts st4 ret) ''parameters'') (\<lambda>parameters.
      and_then (nested_setitem st4 parameters ''image'' (JStr image_json)) (\<lambda>st5 _.
      attempt st5 (getitem (dicts st5 ret) ''tags'') (\<lambda>tags.
      and_then (nested_setitem st5 tags ''bclaw:workflow'' wf_name) (\<lambda>st6 _.
      (st6, Inr ret))))))))))))"

section \<open>The response envelope and its delivery\<close>

text \<open>
  What the handler does to the outside world is recorded as a trace, in the order of the
  calls: log records, calls of the Batch client, and HTTPS requests (host, method, request
  target, body). A request is in the trace once \<^verbatim>\<open>https.request\<close> is called, whether
  or not the transport then fails.
\<close>

datatype level = INFO | WARNING | ERROR

datatype effect =
    Log level string
  | LogValue level string json
  | RegisterJobDefinition json
  | DeregisterJobDefinition json
  | HTTPSRequest string string string string

fun is_put :: "effect \<Rightarrow> bool" where
  "is_put (HTTPSRequest host method target body) = (method = ''PUT'')"
| "is_put _ = False"

text \<open>
  The dataclass. The first four fields hold whatever the event holds (the annotation
  \<^verbatim>\<open>str\<close> is not enforced, and \<^verbatim>\<open>event.get\<close> yields None for a missing id).
\<close>

record Response =
  PhysicalResourceId :: json
  StackId :: json
  RequestId :: json
  LogicalResourceId :: json
  Status :: string
  Reason :: string
  NoEcho :: bool
  Data :: "json pydict"

text \<open>\<^verbatim>\<open>dataclasses.asdict\<close>: the fields in the order of their declaration.\<close>

definition asdict :: "Response \<Rightarrow> json" where
  "asdict r = JDict
     [(''PhysicalResourceId'', PhysicalResourceId r),
      (''StackId'', StackId r),
      (''RequestId'', RequestId r),
      (''LogicalResourceId'', LogicalResourceId r),
      (''Status'', JStr (Status r)),
      (''Reason'', JStr (Reason r)),
      (''NoEcho'', JBool (NoEcho r)),
      (''Data'', JDict (Data r))]"

text \<open>\<^verbatim>\<open>Response.return_this(**kwargs)\<close> with the one keyword the handler passes.\<close>

definition return_this :: "Response \<Rightarrow> string \<Rightarrow> json \<Rightarrow> Response" where
  "return_this r k v = r\<lparr>Data := dict_set k v (Data r)\<rparr>"

text \<open>
  The invocation context of the Lambda runtime, and the result of \<^verbatim>\<open>urlparse\<close> as far
  as \<^verbatim>\<open>respond\<close> reads it.
\<close>

record lambda_context =
  log_group_name :: string
  log_stream_name :: string

record ParseResult =
  hostname :: "string option"
  path :: string
  query :: string

text \<open>
  Everything outside the source file is a parameter: the process environment, Python's
  \<^verbatim>\<open>str\<close> on values that are not strings, the JSON parser, the URL parser, the
  constructor \<^verbatim>\<open>HTTPSConnection(host)\<close> (which may reject the host), the transport behind
  \<^verbatim>\<open>https.request\<close>, and the two operations of the Batch client. The client itself is
  created before the responder's scope is entered.
\<close>

record world =
  os_environ :: "string \<rightharpoonup> string"
  builtin_str :: "json \<Rightarrow> string"
  json_loads :: "string \<Rightarrow> error + json"
  urlparse :: "string \<Rightarrow> error + ParseResult"
  https_connection :: "string \<Rightarrow> error option"
  https_request :: "string \<Rightarrow> string \<Rightarrow> string \<Rightarrow> string \<Rightarrow> error option"
  register_job_definition :: "json \<Rightarrow> error + json"
  deregister_job_definition :: "json \<Rightarrow> error option"

definition bind_result :: "error + 'a \<Rightarrow> ('a \<Rightarrow> error + 'b) \<Rightarrow> error + 'b" where
  "bind_result r f = (case r of Inl e \<Rightarrow> Inl e | Inr x \<Rightarrow> f x)"

text \<open>
  \<^verbatim>\<open>HTTPSConnection(host)\<close> followed by \<^verbatim>\<open>https.request("PUT", target, body)\<close>. A URL
  without a host has \<^verbatim>\<open>hostname\<close> None, on which the constructor raises AttributeError.
\<close>

definition https_put ::
  "world \<Rightarrow> string option \<Rightarrow> string \<Rightarrow> string \<Rightarrow> (error + unit) \<times> effect list" where
  "https_put w host target body =
     (case host of
        None \<Rightarrow> (Inl AttributeError, [])
      | Some h \<Rightarrow>
          (case https_connection w h of
             Some e \<Rightarrow> (Inl e, [])
           | None \<Rightarrow>
               (case https_request w h ''PUT'' target body of
                  Some e \<Rightarrow> (Inl e, [HTTPSRequest h ''PUT'' target body])
                | None \<Rightarrow> (Inr (), [HTTPSRequest h ''PUT'' target body]))))"

text \<open>
  \<^verbatim>\<open>respond(url, body)\<close>. The URL is whatever the event holds; on a value that is not a
  string, parsing or the constructor raises AttributeError before anything is sent.
\<close>

definition respond :: "world \<Rightarrow> json \<Rightarrow> json \<Rightarrow> (error + unit) \<times> effect list" where
  "respond w url body =
     (case url of
        JStr u \<Rightarrow>
          (case urlparse w u of
             Inl e \<Rightarrow> (Inl e, [])
           | Inr url_obj \<Rightarrow>
               let body_json = json_dumps False '', '' '': '' body
               in https_put w (hostname url_obj) (path url_obj @ ''?'' @ query url_obj) body_json)
      | _ \<Rightarrow> (Inl AttributeError, []))"

section \<open>The responder\<close>

text \<open>Lines 48 to 54: the envelope, or the KeyError of the first missing field.\<close>

definition new_response :: "json pydict \<Rightarrow> bool \<Rightarrow> error + Response" where
  "new_response event no_echo =
     bind_result (getitem event ''StackId'') (\<lambda>stack_id.
     bind_result (getitem event ''RequestId'') (\<lambda>request_id.
     bind_result (getitem event ''LogicalResourceId'') (\<lambda>logical_resource_id.
     Inr \<lparr>PhysicalResourceId = dict_get event ''PhysicalResourceId'',
          StackId = stack_id,
          RequestId = request_id,
          LogicalResourceId = logical_resource_id,
          Status = ''FAILED'',
          Reason = [],
          NoEcho = no_echo,
          Data = []\<rparr>)))"

definition diagnostic :: "lambda_context \<Rightarrow> string" where
  "diagnostic ctx =
     ''see log group '' @ log_group_name ctx @ '' / log stream '' @ log_stream_name ctx"

text \<open>
  The body of the \<^verbatim>\<open>with\<close> statement gets the envelope and may change it; it ends
  normally or with an exception, and leaves its own trace.
\<close>

type_synonym scope_body = "Response \<Rightarrow> error option \<times> Response \<times> effect list"

text \<open>
  Lines 57 to 61, the end of the scope: after a body that ended normally the status is set,
  after one that raised the bare \<^verbatim>\<open>except\<close> catches the exception and sets the reason.
\<close>

definition at_exit :: "lambda_context \<Rightarrow> error option \<Rightarrow> Response \<Rightarrow> Response \<times> effect list" where
  "at_exit ctx raised response =
     (case raised of
        None \<Rightarrow> (response\<lparr>Status := ''SUCCESS''\<rparr>, [Log INFO ''succeeded''])
      | Some e \<Rightarrow> (response\<lparr>Reason := diagnostic ctx\<rparr>, [Log ERROR ''failed: '']))"

text \<open>
  The context manager around a body. If the envelope cannot be built the body never runs.
  Otherwise the \<^verbatim>\<open>finally\<close> block logs and sends the envelope; an exception of the
  \<^verbatim>\<open>finally\<close> block is the outcome of the statement, anything else ends it normally.
\<close>

definition responder ::
  "world \<Rightarrow> json pydict \<Rightarrow> lambda_context \<Rightarrow> bool \<Rightarrow> scope_body \<Rightarrow> (error + unit) \<times> effect list" where
  "responder w event ctx no_echo body =
     (case new_response event no_echo of
        Inl e \<Rightarrow> (Inl e, [])
      | Inr response \<Rightarrow>
          (let (raised, response1, effects) = body response;
               (response2, logged) = at_exit ctx raised response1;
               before = effects @ logged @ [LogValue INFO ''asdict(response)'' (asdict response2)]
           in case getitem event ''ResponseURL'' of
                Inl e \<Rightarrow> (Inl e, before)
              | Inr url \<Rightarrow>
                  (case respond w url (asdict response2) of (r, sent) \<Rightarrow> (r, before @ sent))))"

section \<open>lambda_handler\<close>

text \<open>\<^verbatim>\<open>event["ResourceProperties"][k]\<close>.\<close>

definition resource_property :: "json pydict \<Rightarrow> string \<Rightarrow> error + json" where
  "resource_property event k =
     bind_result (getitem event ''ResourceProperties'') (\<lambda>props. subscript props k)"

text \<open>\<^verbatim>\<open>json.loads(s)\<close>: only text can be parsed.\<close>

definition loads :: "world \<Rightarrow> json \<Rightarrow> error + json" where
  "loads w s = (case s of JStr text \<Rightarrow> json_loads w text | _ \<Rightarrow> Inl TypeError)"

text \<open>
  The call \<^verbatim>\<open>edit_spec(spec0, ...)\<close> on a value just parsed, and the dict it returns as the
  Batch client will see it. A parsed list has a \<^verbatim>\<open>copy\<close> method but no string keys
  (TypeError at line 69); any other value that is not a dict has no \<^verbatim>\<open>copy\<close>.
\<close>

definition call_edit_spec :: "world \<Rightarrow> json \<Rightarrow> json \<Rightarrow> json \<Rightarrow> json \<Rightarrow> error + json" where
  "call_edit_spec w spec0 wf_name step_name img =
     (case spec0 of
        JDict d \<Rightarrow>
          (let (st0, a) = new_dict empty_store d;
               (st, r) = edit_spec (os_environ w) (builtin_str w) st0 a wf_name step_name img
           in bind_result r (\<lambda>ret. Inr (view st ret)))
      | JList xs \<Rightarrow> Inl TypeError
      | _ \<Rightarrow> Inl AttributeError)"

text \<open>Lines 110 to 114.\<close>

definition edited_spec :: "world \<Rightarrow> json pydict \<Rightarrow> error + json" where
  "edited_spec w event =
     bind_result (resource_property event ''spec'') (\<lambda>s.
     bind_result (loads w s) (\<lambda>spec0.
     bind_result (resource_property event ''workflowName'') (\<lambda>wf_name.
     bind_result (resource_property event ''stepName'') (\<lambda>step_name.
     bind_result (resource_property event ''image'') (\<lambda>img.
     call_edit_spec w spec0 wf_name step_name img)))))"

text \<open>Lines 110 to 119, the branch for Create and Update.\<close>

definition create_or_update :: "world \<Rightarrow> json pydict \<Rightarrow> scope_body" where
  "create_or_update w event cfn_response =
     (case edited_spec w event of
        Inl e \<Rightarrow> (Some e, cfn_response, [])
      | Inr spec \<Rightarrow>
          (let called = [LogValue INFO ''spec'' spec, RegisterJobDefinition spec]
           in case bind_result (register_job_definition w spec)
                     (\<lambda>result. subscript result ''jobDefinitionArn'') of
                Inl e \<Rightarrow> (Some e, cfn_response, called)
              | Inr arn \<Rightarrow>
                  (None, return_this (cfn_response\<lparr>PhysicalResourceId := arn\<rparr>) ''Arn'' arn,
                   called)))"

text \<open>
  Lines 123 to 129, the branch for Delete: its own bare \<^verbatim>\<open>except\<close> catches a failure of
  the deregistration, so the branch always ends normally.
\<close>

definition delete_request :: "world \<Rightarrow> json pydict \<Rightarrow> scope_body" where
  "delete_request w event cfn_response =
     (let job_def_id = dict_get event ''PhysicalResourceId'' in
      if job_def_id \<noteq> JNull
      then (case deregister_job_definition w job_def_id of
              None \<Rightarrow> (None, cfn_response, [DeregisterJobDefinition job_def_id])
            | Some e \<Rightarrow>
                (None, cfn_response,
                 [DeregisterJobDefinition job_def_id, Log WARNING ''deregistration failed: '']))
      else (None, cfn_response, [Log WARNING ''no physical resource id found'']))"

text \<open>Lines 109 to 129, the body of the \<^verbatim>\<open>with\<close> statement.\<close>

definition handler_body :: "world \<Rightarrow> json pydict \<Rightarrow> scope_body" where
  "handler_body w event cfn_response =
     (case getitem event ''RequestType'' of
        Inl e \<Rightarrow> (Some e, cfn_response, [])
      | Inr request_type \<Rightarrow>
          if request_type \<in> set [JStr ''Create'', JStr ''Update'']
          then create_or_update w event cfn_response
          else delete_request w event cfn_response)"

definition lambda_handler ::
  "world \<Rightarrow> json pydict \<Rightarrow> lambda_context \<Rightarrow> (error + unit) \<times> effect list" where
  "lambda_handler w event ctx =
     (case responder w event ctx False (handler_body w event) of
        (r, effects) \<Rightarrow> (r, LogValue INFO ''event'' (JDict event) # effects))"

section \<open>Strings, white space and sameness of values\<close>

text \<open>
  The strings that occur in a value, as keys or as values at any depth, and the white-space
  characters of JSON: space, tab, line feed and carriage return.
\<close>

fun strings_of :: "json \<Rightarrow> string list" where
  "strings_of (JStr s) = [s]"
| "strings_of (JList xs) = concat (map strings_of xs)"
| "strings_of (JDict d) = concat (map (\<lambda>(k, v). k # strings_of v) d)"
| "strings_of _ = []"

definition whitespace :: "char set" where
  "whitespace = {CHR '' '', CHR 0x09, CHR 0x0A, CHR 0x0D}"

text \<open>
  Two values are the same JSON value when they differ at most in the order in which their
  dicts, at any depth, list their keys: lists agree element by element, dicts have the same
  keys (each once) and the same value under every key, anything else is equal.
\<close>

fun same_value :: "json \<Rightarrow> json \<Rightarrow> bool" where
  "same_value (JList xs) (JList ys) = list_all2 same_value xs ys"
| "same_value (JDict d) (JDict d') =
     (distinct (map fst d) \<and> distinct (map fst d') \<and> set (map fst d) = set (map fst d') \<and>
      list_all (\<lambda>(k, v). case map_of d' k of None \<Rightarrow> False | Some v' \<Rightarrow> same_value v v') d)"
| "same_value x y = (x = y)"

section \<open>Concrete inputs\<close>

text \<open>
  A parsed job definition, the process environment, a world in which every library call
  succeeds but the deregistration (its parser knows one text, which it reads as that job
  definition), an invocation context, a CloudFormation event for a given request type, the
  envelope built from it, and the job definition after the edit.
\<close>

definition example_items :: "json pydict" where
  "example_items =
     [(''type'', JStr ''container''),
      (''containerProperties'',
         JDict [(''image'', JStr ''img''),
                (''environment'', JList [JDict [(''name'', JStr ''A''), (''value'', JStr ''1'')]])]),
      (''parameters'', JDict [(''p'', JStr ''q'')]),
      (''tags'', JDict [(''owner'', JStr ''me'')])]"

definition example_spec :: json where
  "example_spec = JDict example_items"

definition example_environ :: "string \<rightharpoonup> string" where
  "example_environ = [''REGION'' \<mapsto> ''us-east-1'', ''ACCT_NUM'' \<mapsto> ''123'']"

definition example_world :: world where
  "example_world =
     \<lparr>os_environ = example_environ,
      builtin_str = (\<lambda>v. []),
      json_loads = (\<lambda>s. if s = ''spec'' then Inr example_spec else Inl (LibraryError ''JSONDecodeError'')),
      urlparse = (\<lambda>u. if u = ''https://host/path?sig''
                       then Inr \<lparr>hostname = Some ''host'', path = ''/path'', query = ''sig''\<rparr>
                       else Inr \<lparr>hostname = None, path = u, query = []\<rparr>),
      https_connection = (\<lambda>h. None),
      https_request = (\<lambda>h m t b. None),
      register_job_definition = (\<lambda>spec. Inr (JDict [(''jobDefinitionArn'', JStr ''arn:jd:1'')])),
      deregister_job_definition = (\<lambda>v. Some (LibraryError ''ClientError''))\<rparr>"

definition example_context :: lambda_context where
  "example_context = \<lparr>log_group_name = ''grp'', log_stream_name = ''strm''\<rparr>"

definition example_event :: "string \<Rightarrow> json pydict" where
  "example_event request_type =
     [(''RequestType'', JStr request_type),
      (''StackId'', JStr ''stack''),
      (''RequestId'', JStr ''req''),
      (''LogicalResourceId'', JStr ''res''),
      (''ResponseURL'', JStr ''https://host/path?sig''),
      (''ResourceProperties'',
         JDict [(''workflowName'', JStr ''wf1''), (''stepName'', JStr ''step1''),
                (''image'', JDict [(''tag'', JStr ''v2''), (''repo'', JStr ''x'')]),
                (''spec'', JStr ''spec'')])]"

definition example_response :: "json \<Rightarrow> Response" where
  "example_response physical_id =
     \<lparr>PhysicalResourceId = physical_id, StackId = JStr ''stack'', RequestId = JStr ''req'',
      LogicalResourceId = JStr ''res'', Status = ''FAILED'', Reason = [], NoEcho = False,
      Data = []\<rparr>"

text \<open>
  An image with a nested dict, a list, the three literals, a negative number and a string
  with a quote, a backslash, a line feed, a space, two characters outside printable ASCII
  and a tab; the same image with the keys of both dicts in another order; and its
  canonical text
  \<^verbatim>\<open>{"repo":{"x":[null,true,false,"a\"\\\n \u00e9\u007f\t"],"y":-12},"tag":"v2"}\<close>.
\<close>

definition example_image :: json where
  "example_image = JDict
     [(''tag'', JStr ''v2''),
      (''repo'',
         JDict [(''y'', JInt (- 12)),
                (''x'', JList [JNull, JBool True, JBool False,
                               JStr [CHR ''a'', CHR 0x22, CHR 0x5C, CHR 0x0A, CHR '' '',
                                     CHR 0xE9, CHR 0x7F, CHR 0x09]])])]"

definition example_image_reordered :: json where
  "example_image_reordered = JDict
     [(''repo'',
         JDict [(''x'', JList [JNull, JBool True, JBool False,
                               JStr [CHR ''a'', CHR 0x22, CHR 0x5C, CHR 0x0A, CHR '' '',
                                     CHR 0xE9, CHR 0x7F, CHR 0x09]]),
                (''y'', JInt (- 12))]),
      (''tag'', JStr ''v2'')]"

definition example_image_text :: string where
  "example_image_text =
     [CHR ''{'', CHR 0x22, CHR ''r'', CHR ''e'', CHR ''p'', CHR ''o'', CHR 0x22,
      CHR '':'', CHR ''{'', CHR 0x22, CHR ''x'', CHR 0x22, CHR '':'', CHR ''['',
      CHR ''n'', CHR ''u'', CHR ''l'', CHR ''l'', CHR '','', CHR ''t'',
      CHR ''r'', CHR ''u'', CHR ''e'', CHR '','', CHR ''f'', CHR ''a'',
      CHR ''l'', CHR ''s'', CHR ''e'', CHR '','', CHR 0x22, CHR ''a'', CHR 0x5C,
      CHR 0x22, CHR 0x5C, CHR 0x5C, CHR 0x5C, CHR ''n'', CHR '' '', CHR 0x5C,
      CHR ''u'', CHR ''0'', CHR ''0'', CHR ''e'', CHR ''9'', CHR 0x5C,
      CHR ''u'', CHR ''0'', CHR ''0'', CHR ''7'', CHR ''f'', CHR 0x5C,
      CHR ''t'', CHR 0x22, CHR '']'', CHR '','', CHR 0x22, CHR ''y'', CHR 0x22,
      CHR '':'', CHR ''-'', CHR ''1'', CHR ''2'', CHR ''}'', CHR '','',
      CHR 0x22, CHR ''t'', CHR ''a'', CHR ''g'', CHR 0x22, CHR '':'', CHR 0x22,
      CHR ''v'', CHR ''2'', CHR 0x22, CHR ''}'']"

definition example_edited_spec :: json where
  "example_edited_spec = JDict
     [(''type'', JStr ''container''),
      (''containerProperties'',
         JDict [(''image'', JStr ''img''),
                (''environment'',
                   JList [JDict [(''name'', JStr ''A''), (''value'', JStr ''1'')],
                          JDict [(''name'', JStr ''BC_WORKFLOW_NAME''), (''value'', JStr ''wf1'')],
                          JDict [(''name'', JStr ''BC_STEP_NAME''), (''value'', JStr ''step1'')],
                          JDict [(''name'', JStr ''AWS_DEFAULT_REGION''),
                                 (''value'', JStr ''us-east-1'')],
                          JDict [(''name'', JStr ''AWS_ACCOUNT_ID''), (''value'', JStr ''123'')]])]),
      (''parameters'',
         JDict [(''p'', JStr ''q''),
                (''image'', JStr (json_dumps True '','' '':''
                                    (JDict [(''repo'', JStr ''x''), (''tag'', JStr ''v2'')])))]),
      (''tags'', JDict [(''owner'', JStr ''me''), (''bclaw:workflow'', JStr ''wf1'')]),
      (''jobDefinitionName'', JStr ''wf1_step1'')]"

section \<open>Properties of the responder\<close>

lemma respond_ok:
  assumes "urlparse w u = Inr url_obj" and "hostname url_obj = Some h"
    and "https_connection w h = None"
  shows "respond w (JStr u) body =
     ((case https_request w h ''PUT'' (path url_obj @ ''?'' @ query url_obj)
               (json_dumps False '', '' '': '' body) of
         None \<Rightarrow> Inr () | Some e \<Rightarrow> Inl e),
      [HTTPSRequest h ''PUT'' (path url_obj @ ''?'' @ query url_obj)
         (json_dumps False '', '' '': '' body)])"
  using assms by (simp add: respond_def https_put_def split: option.splits)

lemma responder_run:
  assumes "new_response event no_echo = Inr r0"
    and "body r0 = (raised, r1, effects)"
    and "getitem event ''ResponseURL'' = Inr (JStr u)"
    and "urlparse w u = Inr url_obj" and "hostname url_obj = Some h"
    and "https_connection w h = None"
  shows "responder w event ctx no_echo body =
     ((case https_request w h ''PUT'' (path url_obj @ ''?'' @ query url_obj)
               (json_dumps False '', '' '': '' (asdict (fst (at_exit ctx raised r1)))) of
         None \<Rightarrow> Inr () | Some e \<Rightarrow> Inl e),
      effects @ snd (at_exit ctx raised r1) @
      [LogValue INFO ''asdict(response)'' (asdict (fst (at_exit ctx raised r1))),
       HTTPSRequest h ''PUT'' (path url_obj @ ''?'' @ query url_obj)
         (json_dumps False '', '' '': '' (asdict (fst (at_exit ctx raised r1))))])"
  using assms(1,2,3) respond_ok [OF assms(4,5,6)]
  by (simp add: responder_def split: prod.splits)

lemma at_exit_no_put: "filter is_put (snd (at_exit ctx raised r)) = []"
  by (simp add: at_exit_def split: option.splits)

lemma handler_body_no_put: "filter is_put (snd (snd (handler_body w event r))) = []"
  by (simp add: handler_body_def create_or_update_def delete_request_def Let_def
      split: sum.splits option.splits)

lemma new_response_Inr:
  "new_response event no_echo = Inr r0 \<longleftrightarrow>
     (\<exists>s q l. map_of event ''StackId'' = Some s \<and> map_of event ''RequestId'' = Some q \<and>
        map_of event ''LogicalResourceId'' = Some l \<and>
        r0 = \<lparr>PhysicalResourceId = dict_get event ''PhysicalResourceId'', StackId = s,
              RequestId = q, LogicalResourceId = l, Status = ''FAILED'', Reason = [],
              NoEcho = no_echo, Data = []\<rparr>)"
  by (auto simp: new_response_def bind_result_def getitem_def split: option.splits)


lemma lambda_handler_run:
  assumes "new_response event False = Inr r0"
    and "handler_body w event r0 = (raised, r1, effects)"
    and "getitem event ''ResponseURL'' = Inr (JStr u)"
    and "urlparse w u = Inr url_obj" and "hostname url_obj = Some h"
    and "https_connection w h = None"
  shows "lambda_handler w event ctx =
     ((case https_request w h ''PUT'' (path url_obj @ ''?'' @ query url_obj)
               (json_dumps False '', '' '': '' (asdict (fst (at_exit ctx raised r1)))) of
         None \<Rightarrow> Inr () | Some e \<Rightarrow> Inl e),
      LogValue INFO ''event'' (JDict event) # effects @ snd (at_exit ctx raised r1) @
      [LogValue INFO ''asdict(response)'' (asdict (fst (at_exit ctx raised r1))),
       HTTPSRequest h ''PUT'' (path url_obj @ ''?'' @ query url_obj)
         (json_dumps False '', '' '': '' (asdict (fst (at_exit ctx raised r1))))])"
  using responder_run [where body = "handler_body w event" and ctx = ctx, OF assms]
  by (simp add: lambda_handler_def)

lemma new_response_missing:
  assumes "map_of event ''StackId'' = None \<or> map_of event ''RequestId'' = None \<or>
           map_of event ''LogicalResourceId'' = None"
  shows "\<exists>k. k \<in> set [''StackId'', ''RequestId'', ''LogicalResourceId''] \<and>
           map_of event k = None \<and> new_response event no_echo = Inl (KeyError k)"
  using assms
  by (auto simp: new_response_def bind_result_def getitem_def split: option.splits)

lemma responder_no_url:
  assumes "new_response event no_echo = Inr r0"
    and "body r0 = (raised, r1, effects)"
    and "map_of event ''ResponseURL'' = None"
  shows "responder w event ctx no_echo body =
     (Inl (KeyError ''ResponseURL''),
      effects @ snd (at_exit ctx raised r1) @
      [LogValue INFO ''asdict(response)'' (asdict (fst (at_exit ctx raised r1)))])"
  using assms by (simp add: responder_def getitem_def split: prod.splits)

lemma example_new_response:
  "new_response (example_event rt) False = Inr (example_response JNull)"
  by (simp add: new_response_def example_event_def example_response_def bind_result_def
      getitem_def dict_get_def)

lemma example_url:
  "getitem (example_event rt) ''ResponseURL'' = Inr (JStr ''https://host/path?sig'')"
  "urlparse example_world ''https://host/path?sig'' =
     Inr \<lparr>hostname = Some ''host'', path = ''/path'', query = ''sig''\<rparr>"
  "hostname \<lparr>hostname = Some ''host'', path = ''/path'', query = ''sig''\<rparr> = Some ''host''"
  "https_connection example_world ''host'' = None"
  by (simp_all add: example_event_def example_world_def getitem_def)

lemma example_transport: "https_request example_world h m t b = None"
  by (simp add: example_world_def)

lemma example_status: "Status (example_response physical_id) = ''FAILED''"
  by (simp add: example_response_def)

lemma responder_general:
  assumes "new_response event no_echo = Inr r0"
    and "body r0 = (raised, r1, effects)"
  shows "responder w event ctx no_echo body =
     (case getitem event ''ResponseURL'' of
        Inl e \<Rightarrow>
          (Inl e,
           effects @ snd (at_exit ctx raised r1) @
           [LogValue INFO ''asdict(response)'' (asdict (fst (at_exit ctx raised r1)))])
      | Inr url \<Rightarrow>
          (fst (respond w url (asdict (fst (at_exit ctx raised r1)))),
           effects @ snd (at_exit ctx raised r1) @
           [LogValue INFO ''asdict(response)'' (asdict (fst (at_exit ctx raised r1)))] @
           snd (respond w url (asdict (fst (at_exit ctx raised r1))))))"
  using assms by (simp add: responder_def split: prod.splits sum.splits)

text \<open>
  C1. When the envelope can be built and the event's ResponseURL is a URL with a host that
  the connection accepts, the responder adds exactly one PUT to whatever its body did, sent
  to that host and request target with the serialized envelope as its body, whether the
  body ends normally or raises; the whole handler issues exactly one PUT.
\<close>

theorem exactly_one_callback:
  assumes "new_response event no_echo = Inr r0"
    and "getitem event ''ResponseURL'' = Inr (JStr u)"
    and "urlparse w u = Inr url_obj" and "hostname url_obj = Some h"
    and "https_connection w h = None"
  shows "filter is_put (snd (responder w event ctx no_echo body)) =
           filter is_put (snd (snd (body r0))) @
           [HTTPSRequest h ''PUT'' (path url_obj @ ''?'' @ query url_obj)
              (json_dumps False '', '' '': ''
                 (asdict (fst (at_exit ctx (fst (body r0)) (fst (snd (body r0)))))))]
         \<and> length (filter is_put (snd (lambda_handler w event ctx))) = 1"
proof -
  obtain raised r1 effects where b: "body r0 = (raised, r1, effects)"
    by (cases "body r0") auto
  have first: "filter is_put (snd (responder w event ctx no_echo body)) =
           filter is_put (snd (snd (body r0))) @
           [HTTPSRequest h ''PUT'' (path url_obj @ ''?'' @ query url_obj)
              (json_dumps False '', '' '': ''
                 (asdict (fst (at_exit ctx (fst (body r0)) (fst (snd (body r0)))))))]"
    using responder_run [where body = body and ctx = ctx, OF assms(1) b assms(2-5)] b
    by (simp add: at_exit_no_put)
  obtain r0' where n: "new_response event False = Inr r0'"
    using assms(1) by (auto simp: new_response_Inr)
  obtain raised' r1' effects' where
    hb: "handler_body w event r0' = (raised', r1', effects')"
    by (cases "handler_body w event r0'") auto
  have "filter is_put effects' = []"
    using handler_body_no_put [of w event r0'] hb by simp
  then have "length (filter is_put (snd (lambda_handler w event ctx))) = 1"
    using responder_run [where body = "handler_body w event" and ctx = ctx, OF n hb assms(2-5)]
    by (simp add: lambda_handler_def at_exit_no_put)
  with first show ?thesis by simp
qed

theorem exactly_one_callback_witness:
  "filter is_put (snd (responder example_world (example_event ''Create'') example_context False
       (\<lambda>r. (Some TypeError, r, [])))) =
     [HTTPSRequest ''host'' ''PUT'' ''/path?sig''
        (json_dumps False '', '' '': ''
           (asdict ((example_response JNull)
              \<lparr>Reason := ''see log group grp / log stream strm''\<rparr>)))]
   \<and> length (filter is_put
        (snd (lambda_handler example_world (example_event ''Create'') example_context))) = 1"
  using exactly_one_callback [where body = "\<lambda>r. (Some TypeError, r, [])"
      and ctx = example_context, OF example_new_response example_url, of "''Create''"]
  by (simp add: at_exit_def diagnostic_def example_context_def)

text \<open>
  C4. When the body raises, the exception is caught: what the responder returns is the
  outcome of the \<^verbatim>\<open>finally\<close> block (the lookup of ResponseURL and the delivery), in which
  the exception of the body does not occur. The envelope that is logged and handed to
  \<^verbatim>\<open>respond\<close> is the one the body left, with its status untouched (FAILED from the
  construction unless the body changed it) and its reason replaced by the pointer to the log
  group and log stream of the context: in the dict made from it, \<^verbatim>\<open>Reason\<close> is that pointer
  and \<^verbatim>\<open>Status\<close> is the status the body left. For a ResponseURL with a host that the
  connection accepts, that dict is what is sent, and the responder ends normally unless the
  transport fails.
\<close>

theorem failure_is_caught_and_reported:
  assumes "new_response event no_echo = Inr r0"
    and "body r0 = (Some e, r1, effects)"
  shows "let r2 = r1\<lparr>Reason := ''see log group '' @ log_group_name ctx @
                          '' / log stream '' @ log_stream_name ctx\<rparr>;
             before = effects @ [Log ERROR ''failed: '',
                                 LogValue INFO ''asdict(response)'' (asdict r2)]
         in Status r0 = ''FAILED'' \<and> Status r2 = Status r1
            \<and> subscript (asdict r2) ''Reason'' =
                Inr (JStr (''see log group '' @ log_group_name ctx @
                           '' / log stream '' @ log_stream_name ctx))
            \<and> subscript (asdict r2) ''Status'' = Inr (JStr (Status r1))
            \<and> responder w event ctx no_echo body =
                (case getitem event ''ResponseURL'' of
                   Inl e' \<Rightarrow> (Inl e', before)
                 | Inr url \<Rightarrow>
                     (fst (respond w url (asdict r2)), before @ snd (respond w url (asdict r2))))
            \<and> (getitem event ''ResponseURL'' = Inr (JStr u) \<and> urlparse w u = Inr url_obj \<and>
                hostname url_obj = Some h \<and> https_connection w h = None \<longrightarrow>
                responder w event ctx no_echo body =
                  ((case https_request w h ''PUT'' (path url_obj @ ''?'' @ query url_obj)
                           (json_dumps False '', '' '': '' (asdict r2)) of
                      None \<Rightarrow> Inr () | Some e' \<Rightarrow> Inl e'),
                   before @ [HTTPSRequest h ''PUT'' (path url_obj @ ''?'' @ query url_obj)
                               (json_dumps False '', '' '': '' (asdict r2))]))"
proof -
  let ?r2 = "r1\<lparr>Reason := ''see log group '' @ log_group_name ctx @
                          '' / log stream '' @ log_stream_name ctx\<rparr>"
  let ?before = "effects @ [Log ERROR ''failed: '', LogValue INFO ''asdict(response)'' (asdict ?r2)]"
  have x: "at_exit ctx (Some e) r1 = (?r2, [Log ERROR ''failed: ''])"
    by (simp add: at_exit_def diagnostic_def)
  have f1: "Status r0 = ''FAILED'' \<and> Status ?r2 = Status r1"
    using assms(1) by (auto simp: new_response_Inr)
  have f1': "subscript (asdict ?r2) ''Reason'' =
        Inr (JStr (''see log group '' @ log_group_name ctx @
                   '' / log stream '' @ log_stream_name ctx))"
      "subscript (asdict ?r2) ''Status'' = Inr (JStr (Status r1))"
    by (simp_all add: asdict_def subscript_def getitem_def)
  have f2: "responder w event ctx no_echo body =
      (case getitem event ''ResponseURL'' of
         Inl e' \<Rightarrow> (Inl e', ?before)
       | Inr url \<Rightarrow>
           (fst (respond w url (asdict ?r2)), ?before @ snd (respond w url (asdict ?r2))))"
    using responder_general [where body = body and w = w and ctx = ctx, OF assms]
    by (simp add: x cong: sum.case_cong)
  have f3: "getitem event ''ResponseURL'' = Inr (JStr u) \<and> urlparse w u = Inr url_obj \<and>
      hostname url_obj = Some h \<and> https_connection w h = None \<longrightarrow>
      responder w event ctx no_echo body =
        ((case https_request w h ''PUT'' (path url_obj @ ''?'' @ query url_obj)
                 (json_dumps False '', '' '': '' (asdict ?r2)) of
            None \<Rightarrow> Inr () | Some e' \<Rightarrow> Inl e'),
         ?before @ [HTTPSRequest h ''PUT'' (path url_obj @ ''?'' @ query url_obj)
                     (json_dumps False '', '' '': '' (asdict ?r2))])"
  proof
    assume a: "getitem event ''ResponseURL'' = Inr (JStr u) \<and> urlparse w u = Inr url_obj \<and>
      hostname url_obj = Some h \<and> https_connection w h = None"
    show "responder w event ctx no_echo body =
        ((case https_request w h ''PUT'' (path url_obj @ ''?'' @ query url_obj)
                 (json_dumps False '', '' '': '' (asdict ?r2)) of
            None \<Rightarrow> Inr () | Some e' \<Rightarrow> Inl e'),
         ?before @ [HTTPSRequest h ''PUT'' (path url_obj @ ''?'' @ query url_obj)
                     (json_dumps False '', '' '': '' (asdict ?r2))])"
      using responder_run [where body = body and w = w and ctx = ctx and u = u
          and url_obj = url_obj and h = h, OF assms] a
      by (simp add: x)
  qed
  show ?thesis
    unfolding Let_def using f1 f1' f2 f3 by (intro conjI) simp_all
qed

theorem failure_is_caught_and_reported_witness:
  "responder example_world (example_event ''Create'') example_context False
       (\<lambda>r. (Some (KeyError ''workflowName''), r, [])) =
     (Inr (),
      [Log ERROR ''failed: '',
       LogValue INFO ''asdict(response)''
         (asdict ((example_response JNull)\<lparr>Reason := ''see log group grp / log stream strm''\<rparr>)),
       HTTPSRequest ''host'' ''PUT'' ''/path?sig''
         (json_dumps False '', '' '': ''
            (asdict ((example_response JNull)
               \<lparr>Reason := ''see log group grp / log stream strm''\<rparr>)))])
   \<and> Status ((example_response JNull)\<lparr>Reason := ''see log group grp / log stream strm''\<rparr>)
       = ''FAILED''
   \<and> asdict ((example_response JNull)\<lparr>Reason := ''see log group grp / log stream strm''\<rparr>) =
       JDict [(''PhysicalResourceId'', JNull),
              (''StackId'', JStr ''stack''),
              (''RequestId'', JStr ''req''),
              (''LogicalResourceId'', JStr ''res''),
              (''Status'', JStr ''FAILED''),
              (''Reason'', JStr ''see log group grp / log stream strm''),
              (''NoEcho'', JBool False),
              (''Data'', JDict [])]
   \<and> subscript (asdict ((example_response JNull)
          \<lparr>Reason := ''see log group grp / log stream strm''\<rparr>)) ''Reason'' =
       Inr (JStr ''see log group grp / log stream strm'')
   \<and> subscript (asdict ((example_response JNull)
          \<lparr>Reason := ''see log group grp / log stream strm''\<rparr>)) ''Status'' =
       Inr (JStr ''FAILED'')"
proof -
  have b: "(\<lambda>r. (Some (KeyError ''workflowName''), r, [])) (example_response JNull) =
      (Some (KeyError ''workflowName''), example_response JNull, [])"
    by simp
  note t = failure_is_caught_and_reported
      [where body = "\<lambda>r. (Some (KeyError ''workflowName''), r, [])" and ctx = example_context
         and w = example_world and u = "''https://host/path?sig''" and h = "''host''"
         and url_obj = "\<lparr>hostname = Some ''host'', path = ''/path'', query = ''sig''\<rparr>",
       OF example_new_response [of "''Create''"] b, unfolded Let_def]
  have sent: "responder example_world (example_event ''Create'') example_context False
       (\<lambda>r. (Some (KeyError ''workflowName''), r, [])) =
     (Inr (),
      [Log ERROR ''failed: '',
       LogValue INFO ''asdict(response)''
         (asdict ((example_response JNull)\<lparr>Reason := ''see log group grp / log stream strm''\<rparr>)),
       HTTPSRequest ''host'' ''PUT'' ''/path?sig''
         (json_dumps False '', '' '': ''
            (asdict ((example_response JNull)
               \<lparr>Reason := ''see log group grp / log stream strm''\<rparr>)))])"
    using t [THEN conjunct2, THEN conjunct2, THEN conjunct2, THEN conjunct2, THEN conjunct2]
      example_url(1) [of "''Create''"] example_url(2-4)
    by (simp add: example_context_def example_transport)
  have reason: "subscript (asdict ((example_response JNull)
          \<lparr>Reason := ''see log group grp / log stream strm''\<rparr>)) ''Reason'' =
       Inr (JStr ''see log group grp / log stream strm'')"
    using t [THEN conjunct2, THEN conjunct2, THEN conjunct1]
    by (simp add: example_context_def)
  have status: "subscript (asdict ((example_response JNull)
          \<lparr>Reason := ''see log group grp / log stream strm''\<rparr>)) ''Status'' =
       Inr (JStr ''FAILED'')"
    using t [THEN conjunct2, THEN conjunct2, THEN conjunct2, THEN conjunct1]
    by (simp add: example_context_def example_status)
  have whole: "asdict ((example_response JNull)
          \<lparr>Reason := ''see log group grp / log stream strm''\<rparr>) =
       JDict [(''PhysicalResourceId'', JNull),
              (''StackId'', JStr ''stack''),
              (''RequestId'', JStr ''req''),
              (''LogicalResourceId'', JStr ''res''),
              (''Status'', JStr ''FAILED''),
              (''Reason'', JStr ''see log group grp / log stream strm''),
              (''NoEcho'', JBool False),
              (''Data'', JDict [])]"
    by (simp add: asdict_def example_response_def)
  show ?thesis
    using sent reason status whole by (simp add: example_status)
qed

text \<open>
  C5. The envelope is built with status FAILED before the body runs. When the body ends
  normally, the envelope that is logged and handed to \<^verbatim>\<open>respond\<close> is the one the body left
  with its status set to SUCCESS, whatever status the body had given it; for a ResponseURL
  with a host that the connection accepts, that envelope is sent.
\<close>

theorem normal_exit_forces_success:
  assumes "new_response event no_echo = Inr r0"
    and "body r0 = (None, r1, effects)"
  shows "let r2 = r1\<lparr>Status := ''SUCCESS''\<rparr>;
             before = effects @ [Log INFO ''succeeded'',
                                 LogValue INFO ''asdict(response)'' (asdict r2)]
         in Status r0 = ''FAILED''
            \<and> subscript (asdict r2) ''Status'' = Inr (JStr ''SUCCESS'')
            \<and> responder w event ctx no_echo body =
                (case getitem event ''ResponseURL'' of
                   Inl e' \<Rightarrow> (Inl e', before)
                 | Inr url \<Rightarrow>
                     (fst (respond w url (asdict r2)), before @ snd (respond w url (asdict r2))))
            \<and> (getitem event ''ResponseURL'' = Inr (JStr u) \<and> urlparse w u = Inr url_obj \<and>
                hostname url_obj = Some h \<and> https_connection w h = None \<longrightarrow>
                responder w event ctx no_echo body =
                  ((case https_request w h ''PUT'' (path url_obj @ ''?'' @ query url_obj)
                           (json_dumps False '', '' '': '' (asdict r2)) of
                      None \<Rightarrow> Inr () | Some e' \<Rightarrow> Inl e'),
                   before @ [HTTPSRequest h ''PUT'' (path url_obj @ ''?'' @ query url_obj)
                               (json_dumps False '', '' '': '' (asdict r2))]))"
proof -
  let ?r2 = "r1\<lparr>Status := ''SUCCESS''\<rparr>"
  let ?before = "effects @ [Log INFO ''succeeded'', LogValue INFO ''asdict(response)'' (asdict ?r2)]"
  have x: "at_exit ctx (None) r1 = (?r2, [Log INFO ''succeeded''])"
    by (simp add: at_exit_def)
  have f1: "Status r0 = ''FAILED''
            \<and> subscript (asdict ?r2) ''Status'' = Inr (JStr ''SUCCESS'')"
    using assms(1) by (auto simp: new_response_Inr asdict_def subscript_def getitem_def)
  have f2: "responder w event ctx no_echo body =
      (case getitem event ''ResponseURL'' of
         Inl e' \<Rightarrow> (Inl e', ?before)
       | Inr url \<Rightarrow>
           (fst (respond w url (asdict ?r2)), ?before @ snd (respond w url (asdict ?r2))))"
    using responder_general [where body = body and w = w and ctx = ctx, OF assms]
    by (simp add: x cong: sum.case_cong)
  have f3: "getitem event ''ResponseURL'' = Inr (JStr u) \<and> urlparse w u = Inr url_obj \<and>
      hostname url_obj = Some h \<and> https_connection w h = None \<longrightarrow>
      responder w event ctx no_echo body =
        ((case https_request w h ''PUT'' (path url_obj @ ''?'' @ query url_obj)
                 (json_dumps False '', '' '': '' (asdict ?r2)) of
            None \<Rightarrow> Inr () | Some e' \<Rightarrow> Inl e'),
         ?before @ [HTTPSRequest h ''PUT'' (path url_obj @ ''?'' @ query url_obj)
                     (json_dumps False '', '' '': '' (asdict ?r2))])"
  proof
    assume a: "getitem event ''ResponseURL'' = Inr (JStr u) \<and> urlparse w u = Inr url_obj \<and>
      hostname url_obj = Some h \<and> https_connection w h = None"
    show "responder w event ctx no_echo body =
        ((case https_request w h ''PUT'' (path url_obj @ ''?'' @ query url_obj)
                 (json_dumps False '', '' '': '' (asdict ?r2)) of
            None \<Rightarrow> Inr () | Some e' \<Rightarrow> Inl e'),
         ?before @ [HTTPSRequest h ''PUT'' (path url_obj @ ''?'' @ query url_obj)
                     (json_dumps False '', '' '': '' (asdict ?r2))])"
      using responder_run [where body = body and w = w and ctx = ctx and u = u
          and url_obj = url_obj and h = h, OF assms] a
      by (simp add: x)
  qed
  show ?thesis
    unfolding Let_def using f1 f2 f3 by (intro conjI) simp_all
qed

theorem normal_exit_forces_success_witness:
  "Status (example_response JNull) = ''FAILED''
   \<and> responder example_world (example_event ''Create'') example_context False
       (\<lambda>r. (None, r\<lparr>Status := ''PARTIAL''\<rparr>, [])) =
     (Inr (),
      [Log INFO ''succeeded'',
       LogValue INFO ''asdict(response)''
         (asdict ((example_response JNull)\<lparr>Status := ''SUCCESS''\<rparr>)),
       HTTPSRequest ''host'' ''PUT'' ''/path?sig''
         (json_dumps False '', '' '': ''
            (asdict ((example_response JNull)\<lparr>Status := ''SUCCESS''\<rparr>)))])"
proof -
  have b: "(\<lambda>r. (None, r\<lparr>Status := ''PARTIAL''\<rparr>, [])) (example_response JNull) =
      (None, (example_response JNull)\<lparr>Status := ''PARTIAL''\<rparr>, [])"
    by simp
  show ?thesis
    using normal_exit_forces_success
      [where body = "\<lambda>r. (None, r\<lparr>Status := ''PARTIAL''\<rparr>, [])" and ctx = example_context
         and w = example_world and u = "''https://host/path?sig''" and h = "''host''"
         and url_obj = "\<lparr>hostname = Some ''host'', path = ''/path'', query = ''sig''\<rparr>",
       OF example_new_response [of "''Create''"] b, unfolded Let_def,
       THEN conjunct2, THEN conjunct2, THEN conjunct2] example_url(1) [of "''Create''"] example_url(2-4)
    by (simp add: example_transport example_status)
qed

text \<open>
  C10. If StackId, RequestId or LogicalResourceId is missing, building the envelope raises
  KeyError: the body never runs and nothing at all is sent or logged by the responder. If
  these are present and ResponseURL is missing, the body runs, the lookup in the
  \<^verbatim>\<open>finally\<close> block raises KeyError, which is the outcome of the invocation, and the
  responder sends nothing.
\<close>

theorem no_callback_without_required_fields:
  "(map_of event ''StackId'' = None \<or> map_of event ''RequestId'' = None \<or>
      map_of event ''LogicalResourceId'' = None \<longrightarrow>
      (\<exists>k. k \<in> set [''StackId'', ''RequestId'', ''LogicalResourceId''] \<and>
           map_of event k = None \<and>
           responder w event ctx no_echo body = (Inl (KeyError k), []) \<and>
           lambda_handler w event ctx = (Inl (KeyError k), [LogValue INFO ''event'' (JDict event)])))
   \<and> (new_response event no_echo = Inr r0 \<and> map_of event ''ResponseURL'' = None \<longrightarrow>
        fst (responder w event ctx no_echo body) = Inl (KeyError ''ResponseURL'') \<and>
        filter is_put (snd (responder w event ctx no_echo body)) =
          filter is_put (snd (snd (body r0))) \<and>
        fst (lambda_handler w event ctx) = Inl (KeyError ''ResponseURL'') \<and>
        filter is_put (snd (lambda_handler w event ctx)) = [])"
proof (intro conjI impI)
  assume m: "map_of event ''StackId'' = None \<or> map_of event ''RequestId'' = None \<or>
      map_of event ''LogicalResourceId'' = None"
  obtain k where k: "k \<in> set [''StackId'', ''RequestId'', ''LogicalResourceId'']"
      "map_of event k = None" "new_response event no_echo = Inl (KeyError k)"
    using new_response_missing [OF m, of no_echo] by blast
  from k(3) have "new_response event False = Inl (KeyError k)"
    by (auto simp: new_response_def bind_result_def split: sum.splits)
  with k show "\<exists>k. k \<in> set [''StackId'', ''RequestId'', ''LogicalResourceId''] \<and>
      map_of event k = None \<and>
      responder w event ctx no_echo body = (Inl (KeyError k), []) \<and>
      lambda_handler w event ctx = (Inl (KeyError k), [LogValue INFO ''event'' (JDict event)])"
    by (auto simp: responder_def lambda_handler_def)
next
  assume a: "new_response event no_echo = Inr r0 \<and> map_of event ''ResponseURL'' = None"
  obtain raised r1 effects where b: "body r0 = (raised, r1, effects)"
    by (cases "body r0") auto
  have r: "responder w event ctx no_echo body =
     (Inl (KeyError ''ResponseURL''),
      effects @ snd (at_exit ctx raised r1) @
      [LogValue INFO ''asdict(response)'' (asdict (fst (at_exit ctx raised r1)))])"
    using responder_no_url [where body = body, OF _ b] a by simp
  show "fst (responder w event ctx no_echo body) = Inl (KeyError ''ResponseURL'')"
    using r by simp
  show "filter is_put (snd (responder w event ctx no_echo body)) =
          filter is_put (snd (snd (body r0)))"
    using r b by (simp add: at_exit_no_put)
  obtain r0' where n: "new_response event False = Inr r0'"
    using a by (auto simp: new_response_Inr)
  obtain raised' r1' effects' where
    hb: "handler_body w event r0' = (raised', r1', effects')"
    by (cases "handler_body w event r0'") auto
  have np: "filter is_put effects' = []"
    using handler_body_no_put [of w event r0'] hb by simp
  have h: "responder w event ctx False (handler_body w event) =
     (Inl (KeyError ''ResponseURL''),
      effects' @ snd (at_exit ctx raised' r1') @
      [LogValue INFO ''asdict(response)'' (asdict (fst (at_exit ctx raised' r1')))])"
    using responder_no_url [where body = "handler_body w event", OF n hb] a by simp
  show "fst (lambda_handler w event ctx) = Inl (KeyError ''ResponseURL'')"
    using h by (simp add: lambda_handler_def)
  show "filter is_put (snd (lambda_handler w event ctx)) = []"
    using h np by (simp add: lambda_handler_def at_exit_no_put)
qed

theorem no_callback_without_required_fields_witness:
  "(\<exists>k. responder example_world (filter (\<lambda>(k, v). k \<noteq> ''RequestId'') (example_event ''Delete''))
         example_context False (\<lambda>r. (None, r, [HTTPSRequest ''host'' ''PUT'' [] []])) =
       (Inl (KeyError k), []))
   \<and> fst (lambda_handler example_world
        (filter (\<lambda>(k, v). k \<noteq> ''ResponseURL'') (example_event ''Delete'')) example_context) =
       Inl (KeyError ''ResponseURL'')
   \<and> filter is_put (snd (lambda_handler example_world
        (filter (\<lambda>(k, v). k \<noteq> ''ResponseURL'') (example_event ''Delete'')) example_context)) = []"
proof -
  have m: "map_of (filter (\<lambda>(k, v). k \<noteq> ''RequestId'') (example_event ''Delete'')) ''RequestId''
      = None"
    by (simp add: example_event_def)
  have n: "new_response (filter (\<lambda>(k, v). k \<noteq> ''ResponseURL'') (example_event ''Delete'')) False
      = Inr (example_response JNull)"
    by (simp add: new_response_def example_event_def example_response_def bind_result_def
        getitem_def dict_get_def)
  have u: "map_of (filter (\<lambda>(k, v). k \<noteq> ''ResponseURL'') (example_event ''Delete''))
      ''ResponseURL'' = None"
    by (simp add: example_event_def)
  show ?thesis
    using no_callback_without_required_fields
        [of "filter (\<lambda>(k, v). k \<noteq> ''RequestId'') (example_event ''Delete'')" example_world
          example_context False "\<lambda>r. (None, r, [HTTPSRequest ''host'' ''PUT'' [] []])"]
      no_callback_without_required_fields
        [of "filter (\<lambda>(k, v). k \<noteq> ''ResponseURL'') (example_event ''Delete'')" example_world
          example_context False "handler_body example_world
             (filter (\<lambda>(k, v). k \<noteq> ''ResponseURL'') (example_event ''Delete''))"
          "example_response JNull"]
      m n u
    by blast
qed

section \<open>Properties of the handler\<close>

text \<open>
  C2. For a request type other than Create and Update the body of the scope ends normally
  and leaves the envelope as it is: with a physical resource id that is not None it calls
  the deregistration with that id and logs a warning if the call fails; without one it
  calls nothing and logs a warning. When the envelope can be built and delivered, the
  envelope sent has status SUCCESS.
\<close>

theorem delete_always_reports_success:
  assumes "getitem event ''RequestType'' = Inr request_type"
    and "request_type \<noteq> JStr ''Create''" and "request_type \<noteq> JStr ''Update''"
  shows "let job_def_id = dict_get event ''PhysicalResourceId'';
             calls =
               (if job_def_id = JNull then [Log WARNING ''no physical resource id found'']
                else DeregisterJobDefinition job_def_id #
                     (case deregister_job_definition w job_def_id of
                        None \<Rightarrow> []
                      | Some e \<Rightarrow> [Log WARNING ''deregistration failed: '']));
             r2 = r0\<lparr>Status := ''SUCCESS''\<rparr>
         in handler_body w event r0 = (None, r0, calls)
            \<and> subscript (asdict r2) ''Status'' = Inr (JStr ''SUCCESS'')
            \<and> (new_response event False = Inr r0 \<and>
                getitem event ''ResponseURL'' = Inr (JStr u) \<and> urlparse w u = Inr url_obj \<and>
                hostname url_obj = Some h \<and> https_connection w h = None \<longrightarrow>
                snd (lambda_handler w event ctx) =
                  LogValue INFO ''event'' (JDict event) # calls @
                  [Log INFO ''succeeded'',
                   LogValue INFO ''asdict(response)'' (asdict r2),
                   HTTPSRequest h ''PUT'' (path url_obj @ ''?'' @ query url_obj)
                     (json_dumps False '', '' '': '' (asdict r2))])"
proof -
  let ?id = "dict_get event ''PhysicalResourceId''"
  let ?calls = "if ?id = JNull then [Log WARNING ''no physical resource id found'']
       else DeregisterJobDefinition ?id #
            (case deregister_job_definition w ?id of
               None \<Rightarrow> [] | Some e \<Rightarrow> [Log WARNING ''deregistration failed: ''])"
  have hb: "handler_body w event r0 = (None, r0, ?calls)"
    using assms
    by (simp add: handler_body_def delete_request_def Let_def split: option.splits)
  have t: "subscript (asdict (r0\<lparr>Status := ''SUCCESS''\<rparr>)) ''Status'' = Inr (JStr ''SUCCESS'')"
    by (simp add: asdict_def subscript_def getitem_def)
  have d: "snd (lambda_handler w event ctx) =
        LogValue INFO ''event'' (JDict event) # ?calls @
        [Log INFO ''succeeded'',
         LogValue INFO ''asdict(response)'' (asdict (r0\<lparr>Status := ''SUCCESS''\<rparr>)),
         HTTPSRequest h ''PUT'' (path url_obj @ ''?'' @ query url_obj)
           (json_dumps False '', '' '': '' (asdict (r0\<lparr>Status := ''SUCCESS''\<rparr>)))]"
    if "new_response event False = Inr r0"
      "getitem event ''ResponseURL'' = Inr (JStr u)" "urlparse w u = Inr url_obj"
      "hostname url_obj = Some h" "https_connection w h = None"
    using lambda_handler_run [OF that(1) hb that(2-5), of ctx]
    by (simp add: at_exit_def)
  show ?thesis
    using hb t d by (simp add: Let_def)
qed

theorem delete_always_reports_success_witness:
  "snd (lambda_handler example_world
          ((''PhysicalResourceId'', JStr ''arn:jd:0'') # example_event ''Delete'') example_context) =
     [LogValue INFO ''event''
        (JDict ((''PhysicalResourceId'', JStr ''arn:jd:0'') # example_event ''Delete'')),
      DeregisterJobDefinition (JStr ''arn:jd:0''),
      Log WARNING ''deregistration failed: '',
      Log INFO ''succeeded'',
      LogValue INFO ''asdict(response)''
        (asdict ((example_response (JStr ''arn:jd:0''))\<lparr>Status := ''SUCCESS''\<rparr>)),
      HTTPSRequest ''host'' ''PUT'' ''/path?sig''
        (json_dumps False '', '' '': ''
           (asdict ((example_response (JStr ''arn:jd:0''))\<lparr>Status := ''SUCCESS''\<rparr>)))]
   \<and> snd (lambda_handler example_world (example_event ''Delete'') example_context) =
     [LogValue INFO ''event'' (JDict (example_event ''Delete'')),
      Log WARNING ''no physical resource id found'',
      Log INFO ''succeeded'',
      LogValue INFO ''asdict(response)''
        (asdict ((example_response JNull)\<lparr>Status := ''SUCCESS''\<rparr>)),
      HTTPSRequest ''host'' ''PUT'' ''/path?sig''
        (json_dumps False '', '' '': ''
           (asdict ((example_response JNull)\<lparr>Status := ''SUCCESS''\<rparr>)))]"
proof -
  let ?ev = "(''PhysicalResourceId'', JStr ''arn:jd:0'') # example_event ''Delete''"
  let ?po = "\<lparr>hostname = Some ''host'', path = ''/path'', query = ''sig''\<rparr>"
  have n: "new_response ?ev False = Inr (example_response (JStr ''arn:jd:0''))"
    by (simp add: new_response_def example_event_def example_response_def bind_result_def
        getitem_def dict_get_def)
  have t: "getitem ?ev ''RequestType'' = Inr (JStr ''Delete'')"
    "getitem (example_event ''Delete'') ''RequestType'' = Inr (JStr ''Delete'')"
    by (simp_all add: example_event_def getitem_def)
  have d: "JStr ''Delete'' \<noteq> JStr ''Create''" "JStr ''Delete'' \<noteq> JStr ''Update''"
    by simp_all
  have u: "getitem ?ev ''ResponseURL'' = Inr (JStr ''https://host/path?sig'')"
    by (simp add: example_event_def getitem_def)
  have i: "dict_get ?ev ''PhysicalResourceId'' = JStr ''arn:jd:0''"
    "dict_get (example_event ''Delete'') ''PhysicalResourceId'' = JNull"
    by (simp_all add: example_event_def dict_get_def)
  have x: "deregister_job_definition example_world (JStr ''arn:jd:0'') =
      Some (LibraryError ''ClientError'')"
    by (simp add: example_world_def)
  show ?thesis
    using delete_always_reports_success [OF t(1) d, where w = example_world
          and ?r0.0 = "example_response (JStr ''arn:jd:0'')"
          and u = "''https://host/path?sig''" and url_obj = ?po and h = "''host''"
          and ctx = example_context, unfolded Let_def, THEN conjunct2, THEN conjunct2]
      delete_always_reports_success [OF t(2) d, where w = example_world
          and ?r0.0 = "example_response JNull"
          and u = "''https://host/path?sig''" and url_obj = ?po and h = "''host''"
          and ctx = example_context, unfolded Let_def, THEN conjunct2, THEN conjunct2]
      n u example_new_response [of "''Delete''"] example_url(1) [of "''Delete''"] example_url(2-4)
    by (simp add: Let_def i x example_transport)
qed

text \<open>
  C6. For Create and Update, when the edited specification is obtained and the registration
  returns a result with a \<^verbatim>\<open>jobDefinitionArn\<close>, the envelope sent has status SUCCESS, that
  ARN as its PhysicalResourceId and \<^verbatim>\<open>Data = {"Arn": arn}\<close>.
\<close>

theorem create_reports_arn:
  assumes "new_response event False = Inr r0"
    and "getitem event ''RequestType'' = Inr request_type"
    and "request_type = JStr ''Create'' \<or> request_type = JStr ''Update''"
    and "edited_spec w event = Inr spec"
    and "register_job_definition w spec = Inr result"
    and "subscript result ''jobDefinitionArn'' = Inr arn"
    and "getitem event ''ResponseURL'' = Inr (JStr u)"
    and "urlparse w u = Inr url_obj" and "hostname url_obj = Some h"
    and "https_connection w h = None"
  shows "let r2 = r0\<lparr>PhysicalResourceId := arn, Status := ''SUCCESS'', Data := [(''Arn'', arn)]\<rparr>
         in snd (lambda_handler w event ctx) =
              [LogValue INFO ''event'' (JDict event),
               LogValue INFO ''spec'' spec,
               RegisterJobDefinition spec,
               Log INFO ''succeeded'',
               LogValue INFO ''asdict(response)'' (asdict r2),
               HTTPSRequest h ''PUT'' (path url_obj @ ''?'' @ query url_obj)
                 (json_dumps False '', '' '': '' (asdict r2))]
            \<and> subscript (asdict r2) ''Status'' = Inr (JStr ''SUCCESS'')
            \<and> subscript (asdict r2) ''PhysicalResourceId'' = Inr arn
            \<and> subscript2 (asdict r2) ''Data'' ''Arn'' = Inr arn"
proof -
  have d: "Data r0 = []"
    using assms(1) by (auto simp: new_response_Inr)
  have hb: "handler_body w event r0 =
      (None, r0\<lparr>PhysicalResourceId := arn, Data := [(''Arn'', arn)]\<rparr>,
       [LogValue INFO ''spec'' spec, RegisterJobDefinition spec])"
    using assms(2-6) d
    by (auto simp: handler_body_def create_or_update_def Let_def bind_result_def return_this_def)
  show ?thesis
    using lambda_handler_run [OF assms(1) hb assms(7-10), of ctx]
    by (simp add: Let_def at_exit_def asdict_def subscript_def subscript2_def getitem_def)
qed

lemma example_edited: "edited_spec example_world (example_event ''Create'') = Inr example_edited_spec"
  by code_simp

theorem create_reports_arn_witness:
  "snd (lambda_handler example_world (example_event ''Create'') example_context) =
     [LogValue INFO ''event'' (JDict (example_event ''Create'')),
      LogValue INFO ''spec'' example_edited_spec,
      RegisterJobDefinition example_edited_spec,
      Log INFO ''succeeded'',
      LogValue INFO ''asdict(response)''
        (asdict ((example_response JNull)
           \<lparr>PhysicalResourceId := JStr ''arn:jd:1'', Status := ''SUCCESS'',
            Data := [(''Arn'', JStr ''arn:jd:1'')]\<rparr>)),
      HTTPSRequest ''host'' ''PUT'' ''/path?sig''
        (json_dumps False '', '' '': ''
           (asdict ((example_response JNull)
              \<lparr>PhysicalResourceId := JStr ''arn:jd:1'', Status := ''SUCCESS'',
               Data := [(''Arn'', JStr ''arn:jd:1'')]\<rparr>)))]"
proof -
  have t: "getitem (example_event ''Create'') ''RequestType'' = Inr (JStr ''Create'')"
    by (simp add: example_event_def getitem_def)
  have c: "JStr ''Create'' = JStr ''Create'' \<or> JStr ''Create'' = JStr ''Update''"
    by simp
  have r: "register_job_definition example_world example_edited_spec =
      Inr (JDict [(''jobDefinitionArn'', JStr ''arn:jd:1'')])"
    by (simp add: example_world_def)
  have a: "subscript (JDict [(''jobDefinitionArn'', JStr ''arn:jd:1'')]) ''jobDefinitionArn'' =
      Inr (JStr ''arn:jd:1'')"
    by (simp add: subscript_def getitem_def)
  show ?thesis
    using create_reports_arn [OF example_new_response t c example_edited r a example_url,
        of example_context]
    by (simp add: Let_def)
qed

section \<open>Properties of edit_spec\<close>

lemma map_of_dict_set:
  "map_of (dict_set k v d) k' = (if k' = k then Some v else map_of d k')"
  by (induction d) auto

lemma alloc_items_frame:
  "alloc_items st d = (st1, items) \<Longrightarrow>
     fresh st1 = fresh st + length d \<and> dicts st1 = dicts st \<and>
     (\<forall>a < fresh st. cells st1 a = cells st a) \<and>
     distinct (map snd items) \<and> (\<forall>a \<in> snd ` set items. fresh st \<le> a)"
proof (induction d arbitrary: st st1 items)
  case Nil
  then show ?case by simp
next
  case (Cons p d)
  obtain k v where p: "p = (k, v)" by (cases p)
  obtain st2 items2 where
    r: "alloc_items (fst (alloc_cell st v)) d = (st2, items2)"
    by (cases "alloc_items (fst (alloc_cell st v)) d")
  have e: "st1 = st2" "items = (k, fresh st) # items2"
    using Cons.prems p r by (auto simp: alloc_cell_def)
  have ih: "fresh st2 = Suc (fresh st) + length d \<and> dicts st2 = dicts st \<and>
     (\<forall>a < Suc (fresh st). cells st2 a = cells ((fst (alloc_cell st v))) a) \<and>
     distinct (map snd items2) \<and> (\<forall>a \<in> snd ` set items2. Suc (fresh st) \<le> a)"
    using Cons.IH [OF r] by (simp add: alloc_cell_def)
  show ?case
    using ih e p by (fastforce simp: alloc_cell_def)
qed

lemma alloc_items_lookup:
  "alloc_items st d = (st1, items) \<Longrightarrow> map_of d k = Some v \<Longrightarrow>
     \<exists>a. map_of items k = Some a \<and> cells st1 a = v \<and> a < fresh st1"
proof (induction d arbitrary: st st1 items)
  case Nil
  then show ?case by simp
next
  case (Cons p d)
  obtain k' v' where p: "p = (k', v')" by (cases p)
  obtain st2 items2 where
    r: "alloc_items (fst (alloc_cell st v')) d = (st2, items2)"
    by (cases "alloc_items (fst (alloc_cell st v')) d")
  have e: "st1 = st2" "items = (k', fresh st) # items2"
    using Cons.prems(1) p r by (auto simp: alloc_cell_def)
  have f: "fresh st2 = Suc (fresh st) + length d"
    "cells st2 (fresh st) = v'"
    using alloc_items_frame [OF r] by (simp_all add: alloc_cell_def)
  show ?case
  proof (cases "k = k'")
    case True
    then show ?thesis using Cons.prems(2) p e f by simp
  next
    case False
    then have "map_of d k = Some v" using Cons.prems(2) p by simp
    from Cons.IH [OF r this] show ?thesis using False e by simp
  qed
qed

lemma alloc_items_distinct:
  assumes "alloc_items st d = (st1, items)"
    and "map_of items k = Some a" and "map_of items k' = Some a"
  shows "k = k'"
proof -
  have "distinct (map snd items)"
    using alloc_items_frame [OF assms(1)] by simp
  then have "inj_on snd (set items)"
    by (simp add: distinct_map)
  moreover have "(k, a) \<in> set items" "(k', a) \<in> set items"
    using assms(2,3) by (auto dest: map_of_SomeD)
  ultimately show ?thesis
    using inj_onD [of snd "set items" "(k, a)" "(k', a)"] by simp
qed

lemma view_new_dict:
  assumes "new_dict st d = (st0, spec)"
  shows "view st0 spec = JDict d"
proof -
  have g: "alloc_items st d = (st1, items) \<Longrightarrow>
      map (\<lambda>(k, a). (k, cells st1 a)) items = d" for st d st1 items
  proof (induction d arbitrary: st st1 items)
    case Nil
    then show ?case by simp
  next
    case (Cons p d)
    obtain k v where p: "p = (k, v)" by (cases p)
    obtain st2 items2 where
      r: "alloc_items (fst (alloc_cell st v)) d = (st2, items2)"
      by (cases "alloc_items (fst (alloc_cell st v)) d")
    have e: "st1 = st2" "items = (k, fresh st) # items2"
      using Cons.prems p r by (auto simp: alloc_cell_def)
    have "cells st2 (fresh st) = v"
      using alloc_items_frame [OF r] by (simp add: alloc_cell_def)
    then show ?case using Cons.IH [OF r] e p by simp
  qed
  obtain st1 items where a: "alloc_items st d = (st1, items)"
    by (cases "alloc_items st d")
  then show ?thesis
    using assms g [OF a] by (auto simp: new_dict_def alloc_dict_def view_def)
qed

lemma edit_spec_store:
  assumes "map_of (dicts st spec) ''containerProperties'' = Some a"
    and "cells st a = JDict cp" and "map_of cp ''environment'' = Some (JList es)"
    and "map_of (dicts st spec) ''parameters'' = Some b" and "cells st b = JDict ps"
    and "map_of (dicts st spec) ''tags'' = Some c" and "cells st c = JDict ts"
    and "a \<noteq> b" and "a \<noteq> c" and "b \<noteq> c"
    and "a < fresh st" and "b < fresh st" and "c < fresh st"
    and "environ ''REGION'' = Some region" and "environ ''ACCT_NUM'' = Some acct_num"
  shows "edit_spec environ py_str st spec wf_name step_name img =
     (st\<lparr>dicts := (dicts st)
            (fresh st := dict_set ''jobDefinitionName'' (Suc (fresh st)) (dicts st spec)),
         cells := (cells st)
            (Suc (fresh st) :=
               JStr (format_value py_str wf_name @ ''_'' @ format_value py_str step_name),
             a := JDict (dict_set ''environment''
                    (JList (es @ appended wf_name step_name region acct_num)) cp),
             b := JDict (dict_set ''image'' (JStr (json_dumps True '','' '':'' img)) ps),
             c := JDict (dict_set ''bclaw:workflow'' wf_name ts)),
         fresh := Suc (Suc (fresh st))\<rparr>,
      Inr (fresh st))"
  using assms
  by (simp add: edit_spec_def dict_copy_def alloc_dict_def alloc_cell_def dict_setitem_def
      attempt_def and_then_def getitem_def subscript_def environ_getitem_def iadd_def
      nested_setitem_def map_of_dict_set appended_def Let_def)


lemma subscript_view:
  "subscript (view st d) k =
     (case map_of (dicts st d) k of None \<Rightarrow> Inl (KeyError k) | Some a \<Rightarrow> Inr (cells st a))"
  by (simp add: subscript_def view_def getitem_def map_of_map split: option.splits)

lemma edit_spec_loaded:
  assumes "new_dict st d = (st0, spec)"
    and "map_of d ''containerProperties'' = Some (JDict cp)"
    and "map_of cp ''environment'' = Some (JList es)"
    and "map_of d ''parameters'' = Some (JDict ps)"
    and "map_of d ''tags'' = Some (JDict ts)"
    and "environ ''REGION'' = Some region" and "environ ''ACCT_NUM'' = Some acct_num"
  shows "\<exists>st' ret. edit_spec environ py_str st0 spec wf_name step_name img = (st', Inr ret) \<and>
     subscript (view st' ret) ''jobDefinitionName'' =
       Inr (JStr (format_value py_str wf_name @ ''_'' @ format_value py_str step_name)) \<and>
     subscript (view st' ret) ''containerProperties'' =
       Inr (JDict (dict_set ''environment''
              (JList (es @ appended wf_name step_name region acct_num)) cp)) \<and>
     subscript (view st' ret) ''parameters'' =
       Inr (JDict (dict_set ''image'' (JStr (json_dumps True '','' '':'' img)) ps)) \<and>
     subscript (view st' ret) ''tags'' = Inr (JDict (dict_set ''bclaw:workflow'' wf_name ts)) \<and>
     subscript (view st' spec) ''containerProperties'' =
       subscript (view st' ret) ''containerProperties'' \<and>
     subscript (view st' spec) ''parameters'' = subscript (view st' ret) ''parameters'' \<and>
     subscript (view st' spec) ''tags'' = subscript (view st' ret) ''tags''"
proof -
  obtain st1 items where al: "alloc_items st d = (st1, items)"
    by (cases "alloc_items st d")
  have st0: "st0 = st1\<lparr>dicts := (dicts st1)(fresh st1 := items), fresh := Suc (fresh st1)\<rparr>"
    and spec: "spec = fresh st1"
    using assms(1) al by (auto simp: new_dict_def alloc_dict_def)
  obtain a where a: "map_of items ''containerProperties'' = Some a" "cells st1 a = JDict cp"
      "a < fresh st1"
    using alloc_items_lookup [OF al assms(2)] by blast
  obtain b where b: "map_of items ''parameters'' = Some b" "cells st1 b = JDict ps"
      "b < fresh st1"
    using alloc_items_lookup [OF al assms(4)] by blast
  obtain c where c: "map_of items ''tags'' = Some c" "cells st1 c = JDict ts"
      "c < fresh st1"
    using alloc_items_lookup [OF al assms(5)] by blast
  have ne: "a \<noteq> b" "a \<noteq> c" "b \<noteq> c"
    using alloc_items_distinct [OF al a(1), of "''parameters''"]
      alloc_items_distinct [OF al a(1), of "''tags''"]
      alloc_items_distinct [OF al b(1), of "''tags''"] b(1) c(1)
    by auto
  have run: "edit_spec environ py_str st0 spec wf_name step_name img =
     (st0\<lparr>dicts := (dicts st0)
            (fresh st0 := dict_set ''jobDefinitionName'' (Suc (fresh st0)) (dicts st0 spec)),
         cells := (cells st0)
            (Suc (fresh st0) :=
               JStr (format_value py_str wf_name @ ''_'' @ format_value py_str step_name),
             a := JDict (dict_set ''environment''
                    (JList (es @ appended wf_name step_name region acct_num)) cp),
             b := JDict (dict_set ''image'' (JStr (json_dumps True '','' '':'' img)) ps),
             c := JDict (dict_set ''bclaw:workflow'' wf_name ts)),
         fresh := Suc (Suc (fresh st0))\<rparr>,
      Inr (fresh st0))"
    using a b c ne assms(3,6,7)
    by (intro edit_spec_store) (simp_all add: st0 spec)
  show ?thesis
    using a b c ne
    by (simp add: run subscript_view map_of_dict_set) (simp add: st0 spec)
qed

lemma alist_from_keys:
  "distinct (map fst xs) \<Longrightarrow> map (\<lambda>k. (k, the (map_of xs k))) (map fst xs) = xs"
proof (induction xs)
  case Nil
  then show ?case by simp
next
  case (Cons p xs)
  obtain k v where p: "p = (k, v)" by (cases p)
  have "k' \<noteq> k" if "k' \<in> set (map fst xs)" for k'
    using that Cons.prems p by auto
  then have "map (\<lambda>k'. (k', the (map_of (p # xs) k'))) (map fst xs) =
      map (\<lambda>k'. (k', the (map_of xs k'))) (map fst xs)"
    using p by (intro map_cong) simp_all
  with Cons p show ?case by simp
qed

lemma sort_key_alist_eq:
  assumes "distinct (map fst d)" and "distinct (map fst d')" and "map_of d = map_of d'"
  shows "sort_key fst d = sort_key fst d'"
proof -
  let ?xs = "sort_key fst d" and ?ys = "sort_key fst d'"
  have s: "set d = set d'"
    using assms by (simp add: map_of_inject_set)
  have dx: "distinct (map fst ?xs)" and dy: "distinct (map fst ?ys)"
    using assms(1,2) by (simp_all add: distinct_map)
  have "map fst ?xs = map fst ?ys"
    using dx dy s by (intro sorted_distinct_set_unique) simp_all
  moreover have "map_of ?xs = map_of d" "map_of ?ys = map_of d'"
    using dx dy assms(1,2) by (simp_all add: map_of_inject_set)
  ultimately have "map (\<lambda>k. (k, the (map_of ?xs k))) (map fst ?xs) =
      map (\<lambda>k. (k, the (map_of ?ys k))) (map fst ?ys)"
    using assms(3) by simp
  then show ?thesis
    using alist_from_keys [OF dx] alist_from_keys [OF dy] by simp
qed

lemma json_dumps_sorted_alist_eq:
  assumes "distinct (map fst d)" and "distinct (map fst d')" and "map_of d = map_of d'"
  shows "json_dumps True isep ksep (JDict d) = json_dumps True isep ksep (JDict d')"
  using sort_key_alist_eq [OF assms] by simp

lemma subscript_JDict: "subscript (JDict d) k = Inr v \<longleftrightarrow> map_of d k = Some v"
  by (simp add: subscript_def getitem_def split: option.splits)

lemma subscript2_JDict:
  "subscript2 (JDict d) k1 k2 = Inr v \<longleftrightarrow>
     (\<exists>d'. map_of d k1 = Some (JDict d') \<and> map_of d' k2 = Some v)"
  by (auto simp: subscript2_def subscript_def getitem_def split: option.splits json.splits)

lemma example_valid:
  "subscript2 (JDict example_items) ''containerProperties'' ''environment'' =
     Inr (JList [JDict [(''name'', JStr ''A''), (''value'', JStr ''1'')]])"
  "subscript (JDict example_items) ''parameters'' = Inr (JDict [(''p'', JStr ''q'')])"
  "subscript (JDict example_items) ''tags'' = Inr (JDict [(''owner'', JStr ''me'')])"
  "example_environ ''REGION'' = Some ''us-east-1''"
  "example_environ ''ACCT_NUM'' = Some ''123''"
  by (simp_all add: example_items_def example_environ_def subscript2_def subscript_def
      getitem_def)

lemma example_loaded:
  "new_dict empty_store example_items =
     (fst (new_dict empty_store example_items), snd (new_dict empty_store example_items))"
  by simp

text \<open>
  C8. For a job definition as the parser returns it, with a list under
  \<^verbatim>\<open>containerProperties.environment\<close>, a dict under \<^verbatim>\<open>parameters\<close> and a dict under
  \<^verbatim>\<open>tags\<close>, and with REGION and ACCT_NUM set, \<^verbatim>\<open>edit_spec\<close> returns a dict whose
  environment list is the old list followed by the four new entries, in this order.
\<close>

theorem environment_entries_appended:
  assumes "new_dict st d = (st0, spec)"
    and "subscript2 (JDict d) ''containerProperties'' ''environment'' = Inr (JList es)"
    and "subscript (JDict d) ''parameters'' = Inr (JDict ps)"
    and "subscript (JDict d) ''tags'' = Inr (JDict ts)"
    and "environ ''REGION'' = Some region" and "environ ''ACCT_NUM'' = Some acct_num"
  shows "\<exists>st' ret. edit_spec environ py_str st0 spec wf_name step_name img = (st', Inr ret) \<and>
     subscript2 (view st' ret) ''containerProperties'' ''environment'' =
       Inr (JList (es @
         [JDict [(''name'', JStr ''BC_WORKFLOW_NAME''), (''value'', wf_name)],
          JDict [(''name'', JStr ''BC_STEP_NAME''), (''value'', step_name)],
          JDict [(''name'', JStr ''AWS_DEFAULT_REGION''), (''value'', JStr region)],
          JDict [(''name'', JStr ''AWS_ACCOUNT_ID''), (''value'', JStr acct_num)]]))"
proof -
  obtain cp where cp: "map_of d ''containerProperties'' = Some (JDict cp)"
      "map_of cp ''environment'' = Some (JList es)"
    using assms(2) by (auto simp: subscript2_JDict)
  have ps: "map_of d ''parameters'' = Some (JDict ps)"
    and ts: "map_of d ''tags'' = Some (JDict ts)"
    using assms(3,4) by (simp_all add: subscript_JDict)
  from edit_spec_loaded [OF assms(1) cp ps ts assms(5,6),
      of py_str wf_name step_name img]
  show ?thesis
    by (auto simp: subscript2_def subscript_def getitem_def map_of_dict_set appended_def)
qed

theorem environment_entries_appended_witness:
  "\<exists>st' ret.
     edit_spec example_environ (\<lambda>v. []) (fst (new_dict empty_store example_items))
       (snd (new_dict empty_store example_items)) (JStr ''wf1'') (JStr ''step1'')
       (JDict [(''tag'', JStr ''v2''), (''repo'', JStr ''x'')]) = (st', Inr ret) \<and>
     subscript2 (view st' ret) ''containerProperties'' ''environment'' =
       Inr (JList
         [JDict [(''name'', JStr ''A''), (''value'', JStr ''1'')],
          JDict [(''name'', JStr ''BC_WORKFLOW_NAME''), (''value'', JStr ''wf1'')],
          JDict [(''name'', JStr ''BC_STEP_NAME''), (''value'', JStr ''step1'')],
          JDict [(''name'', JStr ''AWS_DEFAULT_REGION''), (''value'', JStr ''us-east-1'')],
          JDict [(''name'', JStr ''AWS_ACCOUNT_ID''), (''value'', JStr ''123'')]])"
  using environment_entries_appended [OF example_loaded example_valid,
      of "\<lambda>v. []" "JStr ''wf1''" "JStr ''step1''"
        "JDict [(''tag'', JStr ''v2''), (''repo'', JStr ''x'')]"]
  by simp

text \<open>
  C9. Under the same conditions and for string names, the returned dict has
  \<^verbatim>\<open>jobDefinitionName\<close> equal to the workflow name, an underscore and the step name; its
  tags are the old tags with \<^verbatim>\<open>bclaw:workflow\<close> set to the workflow name, so every other
  tag is what it was.
\<close>

theorem name_and_workflow_tag:
  assumes "new_dict st d = (st0, spec)"
    and "subscript2 (JDict d) ''containerProperties'' ''environment'' = Inr (JList es)"
    and "subscript (JDict d) ''parameters'' = Inr (JDict ps)"
    and "subscript (JDict d) ''tags'' = Inr (JDict ts)"
    and "environ ''REGION'' = Some region" and "environ ''ACCT_NUM'' = Some acct_num"
  shows "\<exists>st' ret.
     edit_spec environ py_str st0 spec (JStr wf_name) (JStr step_name) img = (st', Inr ret) \<and>
     subscript (view st' ret) ''jobDefinitionName'' = Inr (JStr (wf_name @ ''_'' @ step_name)) \<and>
     subscript (view st' ret) ''tags'' =
       Inr (JDict (dict_set ''bclaw:workflow'' (JStr wf_name) ts)) \<and>
     subscript2 (view st' ret) ''tags'' ''bclaw:workflow'' = Inr (JStr wf_name) \<and>
     (\<forall>k. k \<noteq> ''bclaw:workflow'' \<longrightarrow>
        subscript2 (view st' ret) ''tags'' k = subscript (JDict ts) k)"
proof -
  obtain cp where cp: "map_of d ''containerProperties'' = Some (JDict cp)"
      "map_of cp ''environment'' = Some (JList es)"
    using assms(2) by (auto simp: subscript2_JDict)
  have ps: "map_of d ''parameters'' = Some (JDict ps)"
    and ts: "map_of d ''tags'' = Some (JDict ts)"
    using assms(3,4) by (simp_all add: subscript_JDict)
  from edit_spec_loaded [OF assms(1) cp ps ts assms(5,6),
      of py_str "JStr wf_name" "JStr step_name" img]
  show ?thesis
    by (auto simp: subscript2_def subscript_def getitem_def map_of_dict_set format_value_def)
qed

theorem name_and_workflow_tag_witness:
  "\<exists>st' ret.
     edit_spec example_environ (\<lambda>v. []) (fst (new_dict empty_store example_items))
       (snd (new_dict empty_store example_items)) (JStr ''wf1'') (JStr ''step1'')
       (JDict [(''tag'', JStr ''v2''), (''repo'', JStr ''x'')]) = (st', Inr ret) \<and>
     subscript (view st' ret) ''jobDefinitionName'' = Inr (JStr ''wf1_step1'') \<and>
     subscript (view st' ret) ''tags'' =
       Inr (JDict [(''owner'', JStr ''me''), (''bclaw:workflow'', JStr ''wf1'')]) \<and>
     subscript2 (view st' ret) ''tags'' ''owner'' = Inr (JStr ''me'')"
proof -
  have o: "subscript (JDict [(''owner'', JStr ''me'')]) ''owner'' = Inr (JStr ''me'')"
    by (simp add: subscript_def getitem_def)
  have n: "''owner'' \<noteq> ''bclaw:workflow''"
    by simp
  show ?thesis
    using name_and_workflow_tag [OF example_loaded example_valid,
        of "\<lambda>v. []" "''wf1''" "''step1''"
          "JDict [(''tag'', JStr ''v2''), (''repo'', JStr ''x'')]"] o n
    by fastforce
qed

subsection \<open>The canonical form of the image\<close>

lemma whitespace_punctuation:
  assumes "c \<in> whitespace"
  shows "c \<noteq> CHR ''['' " "c \<noteq> CHR '']''" "c \<noteq> CHR ''{''" "c \<noteq> CHR ''}''"
    "c \<noteq> CHR '',''" "c \<noteq> CHR '':''" "c \<noteq> CHR ''-''"
  using assms by (auto simp: whitespace_def)

lemma hex_digit_no_whitespace: "hex_digit n \<notin> whitespace"
proof -
  have "hex_digit n \<in> set ''0123456789abcdef''"
    unfolding hex_digit_def by (rule nth_mem) simp
  then show ?thesis by (auto simp: whitespace_def)
qed

lemma escape_char_whitespace:
  assumes "c \<in> set (escape_char x)" and "c \<in> whitespace"
  shows "c = CHR '' '' \<and> x = c"
proof -
  have "hex_digit (of_char x div 16) \<noteq> c" "hex_digit (of_char x mod 16) \<noteq> c"
    using hex_digit_no_whitespace assms(2) by auto
  then show ?thesis
    using assms by (auto simp: escape_char_def whitespace_def split: if_splits)
qed

lemma encode_whitespace:
  assumes "c \<in> set (encode_basestring_ascii s)" and "c \<in> whitespace"
  shows "c = CHR '' '' \<and> c \<in> set s"
  using assms escape_char_whitespace [of c]
  by (auto simp: encode_basestring_ascii_def whitespace_def)

lemma dec_digits_no_whitespace: "c \<in> set (dec_digits n) \<Longrightarrow> c \<notin> whitespace"
proof (induction n rule: dec_digits.induct)
  case (1 n)
  have d: "''0123456789'' ! (n mod 10) \<in> set ''0123456789''"
    by (rule nth_mem) simp
  then have d': "''0123456789'' ! (n mod 10) \<notin> whitespace"
    by (auto simp: whitespace_def)
  show ?case
  proof (cases "n < 10")
    case True
    then have "c = ''0123456789'' ! (n mod 10)"
      using "1.prems" by (simp add: dec_digits.simps [of n])
    with d' show ?thesis by simp
  next
    case False
    then have "c \<in> set (dec_digits (n div 10)) \<or> c = ''0123456789'' ! (n mod 10)"
      using "1.prems" by (auto simp: dec_digits.simps [of n])
    then show ?thesis
      using "1.IH" False d' by auto
  qed
qed

lemma int_repr_no_whitespace: "c \<in> set (int_repr i) \<Longrightarrow> c \<notin> whitespace"
  using dec_digits_no_whitespace [of c] whitespace_punctuation(7) [of c]
  by (auto simp: int_repr_def split: if_splits)

lemma str_join_set: "c \<in> set (str_join sep xs) \<Longrightarrow> c \<in> set sep \<or> (\<exists>x \<in> set xs. c \<in> set x)"
  by (induction sep xs rule: str_join.induct) auto

lemma json_dumps_whitespace:
  "c \<in> set (json_dumps True '','' '':'' j) \<Longrightarrow> c \<in> whitespace \<Longrightarrow>
     c = CHR '' '' \<and> (\<exists>s \<in> set (strings_of j). c \<in> set s)"
proof (induction j)
  case JNull
  then show ?case by (auto simp: whitespace_def)
next
  case (JBool b)
  then show ?case by (auto simp: whitespace_def split: if_splits)
next
  case (JInt i)
  then show ?case using int_repr_no_whitespace by auto
next
  case (JStr s)
  then show ?case using encode_whitespace by auto
next
  case (JList xs)
  note p = whitespace_punctuation [OF JList.prems(2)]
  from JList.prems(1) p have "c \<in> set (str_join '','' (map (json_dumps True '','' '':'') xs))"
    by simp
  from str_join_set [OF this] p
  have "\<exists>y \<in> set (map (json_dumps True '','' '':'') xs). c \<in> set y"
    by simp
  then obtain x where "x \<in> set xs" "c \<in> set (json_dumps True '','' '':'' x)"
    by auto
  with JList.IH [of x] JList.prems(2) show ?case by auto
next
  case (JDict d)
  note p = whitespace_punctuation [OF JDict.prems(2)]
  from JDict.prems(1) p have "c \<in> set (str_join '',''
      (map (\<lambda>(k, v). encode_basestring_ascii k @ '':'' @ json_dumps True '','' '':'' v)
         (sort_key fst d)))"
    by simp
  from str_join_set [OF this] p
  have "\<exists>y \<in> set (map (\<lambda>(k, v). encode_basestring_ascii k @ '':'' @
      json_dumps True '','' '':'' v) (sort_key fst d)). c \<in> set y"
    by simp
  then obtain k v where kv: "(k, v) \<in> set d"
      "c \<in> set (encode_basestring_ascii k) \<or> c \<in> set (json_dumps True '','' '':'' v)"
    using p by auto
  show ?case
  proof (cases "c \<in> set (encode_basestring_ascii k)")
    case True
    then show ?thesis
      using encode_whitespace [OF True JDict.prems(2)] kv(1) by force
  next
    case False
    then have "c \<in> set (json_dumps True '','' '':'' v)" using kv(2) by simp
    from JDict.IH [of "(k, v)" v, OF kv(1) _ this JDict.prems(2)] kv(1)
    show ?thesis by force
  qed
qed

text \<open>
  The keys of a dict are written in ascending order, each with the text of its value, and
  values that are the same JSON value have the same text.
\<close>

lemma insort_key_fst_map:
  "insort_key fst (k, f v) (map (\<lambda>(k, v). (k, f v)) xs) =
     map (\<lambda>(k, v). (k, f v)) (insort_key fst (k, v) xs)"
  by (induction xs) auto

lemma sort_key_fst_map:
  "sort_key fst (map (\<lambda>(k, v). (k, f v)) xs) = map (\<lambda>(k, v). (k, f v)) (sort_key fst xs)"
proof (induction xs)
  case Nil
  then show ?case by simp
next
  case (Cons p xs)
  obtain k v where "p = (k, v)" by (cases p)
  with Cons show ?case by (simp add: insort_key_fst_map)
qed

lemma dict_text_by_rendered_items:
  "json_dumps True isep ksep (JDict d) =
     ''{'' @ str_join isep
        (map (\<lambda>(k, s). encode_basestring_ascii k @ ksep @ s)
           (sort_key fst (map (\<lambda>(k, v). (k, json_dumps True isep ksep v)) d))) @ ''}''"
proof -
  have "map (\<lambda>(k, s). encode_basestring_ascii k @ ksep @ s)
          (sort_key fst (map (\<lambda>(k, v). (k, json_dumps True isep ksep v)) d)) =
        map (\<lambda>(k, s). encode_basestring_ascii k @ ksep @ s)
          (map (\<lambda>(k, v). (k, json_dumps True isep ksep v)) (sort_key fst d))"
    by (simp only: sort_key_fst_map)
  also have "\<dots> = map (\<lambda>(k, v). encode_basestring_ascii k @ ksep @ json_dumps True isep ksep v)
          (sort_key fst d)"
    by (simp add: comp_def case_prod_beta)
  finally show ?thesis by simp
qed

lemma json_dumps_same_value:
  "same_value j j' \<Longrightarrow> json_dumps True isep ksep j = json_dumps True isep ksep j'"
proof (induction j j' rule: same_value.induct)
  case (1 xs ys)
  from "1.prems" have "list_all2 same_value xs ys" by simp
  then have "list_all2 (\<lambda>x y. json_dumps True isep ksep x = json_dumps True isep ksep y) xs ys"
    using "1.IH" by (rule list.rel_mono_strong)
  then have "map (json_dumps True isep ksep) xs = map (json_dumps True isep ksep) ys"
    by (induction xs ys rule: list_all2_induct) simp_all
  then show ?case by simp
next
  case (2 d d')
  let ?r = "\<lambda>(k, v). (k, json_dumps True isep ksep v)"
  from "2.prems" have dd: "distinct (map fst d)" "distinct (map fst d')"
    and ks: "set (map fst d) = set (map fst d')"
    and al: "list_all (\<lambda>(k, v). case map_of d' k of None \<Rightarrow> False
                                  | Some v' \<Rightarrow> same_value v v') d"
    by simp_all
  have fr: "fst \<circ> ?r = fst"
    by (auto simp: fun_eq_iff)
  have mo: "map_of (map ?r xs) = map_option (json_dumps True isep ksep) \<circ> map_of xs"
    for xs :: "json pydict"
    by (rule map_of_map)
  have "map_of (map ?r d) k = map_of (map ?r d') k" for k
  proof (cases "map_of d k")
    case None
    then have "k \<notin> set (map fst d)" by (simp add: map_of_eq_None_iff)
    then have "map_of d' k = None" using ks by (simp add: map_of_eq_None_iff)
    with None show ?thesis by (simp add: mo)
  next
    case (Some v)
    then have m: "(k, v) \<in> set d" by (rule map_of_SomeD)
    then obtain v' where v': "map_of d' k = Some v'" "same_value v v'"
      using al by (auto simp: list_all_iff split: option.splits)
    from "2.IH" [OF m refl v'(1) v'(2)] Some v'(1) show ?thesis by (simp add: mo)
  qed
  then have "map_of (map ?r d) = map_of (map ?r d')" by (rule ext)
  then have "sort_key fst (map ?r d) = sort_key fst (map ?r d')"
    using dd by (intro sort_key_alist_eq) (simp_all add: fr)
  then show ?case
    by (simp only: dict_text_by_rendered_items)
qed simp_all

lemma sorted_keys_items:
  assumes "distinct (map fst d)"
  shows "sort_key fst d = map (\<lambda>k. (k, the (map_of d k))) (sort (map fst d))"
proof -
  let ?xs = "sort_key fst d"
  have dx: "distinct (map fst ?xs)"
    using assms by (simp add: distinct_map)
  have "map fst ?xs = sort (map fst d)"
    using dx assms by (intro sorted_distinct_set_unique) simp_all
  moreover have "map_of ?xs = map_of d"
    using dx assms by (simp add: map_of_inject_set)
  ultimately show ?thesis
    using alist_from_keys [OF dx] by simp
qed

lemma dict_text_in_key_order:
  assumes "distinct (map fst d)"
  shows "json_dumps True isep ksep (JDict d) =
     ''{'' @ str_join isep
        (map (\<lambda>k. encode_basestring_ascii k @ ksep @
                   json_dumps True isep ksep (the (map_of d k)))
           (sort (map fst d))) @ ''}''"
  by (simp add: sorted_keys_items [OF assms] comp_def)

text \<open>
  C7. Under the same conditions \<^verbatim>\<open>parameters.image\<close> of the returned dict is the
  serialization of the image by \<^verbatim>\<open>json.dumps\<close> with sorted keys and the separators \<^verbatim>\<open>,\<close>
  and \<^verbatim>\<open>:\<close>. In that serialization every dict, at any depth, is written as its keys in
  ascending order, each followed by a colon and the text of its value, with commas between
  them; a list is written as the texts of its elements in their order with commas between
  them. The text has no tab, line feed or carriage return, and a space only inside a string
  of the image. An image that is the same JSON value, with the keys of its dicts at any
  depth in another order, gives the same \<^verbatim>\<open>parameters.image\<close>; so does a dict with the
  same bindings in another order. The image ranges over the values of \<^typ>\<open>json\<close>: JSON
  without floating-point numbers, with characters below 256.
\<close>

theorem image_parameter_canonical:
  assumes "new_dict st d = (st0, spec)"
    and "subscript2 (JDict d) ''containerProperties'' ''environment'' = Inr (JList es)"
    and "subscript (JDict d) ''parameters'' = Inr (JDict ps)"
    and "subscript (JDict d) ''tags'' = Inr (JDict ts)"
    and "environ ''REGION'' = Some region" and "environ ''ACCT_NUM'' = Some acct_num"
  shows "\<exists>st' ret. edit_spec environ py_str st0 spec wf_name step_name img = (st', Inr ret) \<and>
     subscript2 (view st' ret) ''parameters'' ''image'' =
       Inr (JStr (json_dumps True '','' '':'' img)) \<and>
     (\<forall>kvs. distinct (map fst kvs) \<longrightarrow>
        json_dumps True '','' '':'' (JDict kvs) =
          ''{'' @ str_join '',''
             (map (\<lambda>k. encode_basestring_ascii k @ '':'' @
                        json_dumps True '','' '':'' (the (map_of kvs k)))
                (sort (map fst kvs))) @ ''}'') \<and>
     (\<forall>xs. json_dumps True '','' '':'' (JList xs) =
        ''['' @ str_join '','' (map (json_dumps True '','' '':'') xs) @ '']'') \<and>
     (\<forall>c \<in> set (json_dumps True '','' '':'' img) \<inter> whitespace.
        c = CHR '' '' \<and> (\<exists>s \<in> set (strings_of img). c \<in> set s)) \<and>
     (\<forall>img'. same_value img img' \<longrightarrow>
        (\<exists>st'' ret'.
           edit_spec environ py_str st0 spec wf_name step_name img' = (st'', Inr ret') \<and>
           subscript2 (view st'' ret') ''parameters'' ''image'' =
             subscript2 (view st' ret) ''parameters'' ''image'')) \<and>
     (\<forall>kvs kvs'. img = JDict kvs \<and> distinct (map fst kvs) \<and> distinct (map fst kvs') \<and>
        map_of kvs = map_of kvs' \<longrightarrow>
        (\<exists>st'' ret'.
           edit_spec environ py_str st0 spec wf_name step_name (JDict kvs') = (st'', Inr ret') \<and>
           subscript2 (view st'' ret') ''parameters'' ''image'' =
             subscript2 (view st' ret) ''parameters'' ''image''))"
proof -
  obtain cp where cp: "map_of d ''containerProperties'' = Some (JDict cp)"
      "map_of cp ''environment'' = Some (JList es)"
    using assms(2) by (auto simp: subscript2_JDict)
  have ps: "map_of d ''parameters'' = Some (JDict ps)"
    and ts: "map_of d ''tags'' = Some (JDict ts)"
    using assms(3,4) by (simp_all add: subscript_JDict)
  have run: "\<exists>st' ret. edit_spec environ py_str st0 spec wf_name step_name v = (st', Inr ret) \<and>
     subscript2 (view st' ret) ''parameters'' ''image'' =
       Inr (JStr (json_dumps True '','' '':'' v))" for v
    using edit_spec_loaded [OF assms(1) cp ps ts assms(5,6), of py_str wf_name step_name v]
    by (auto simp: subscript2_def subscript_def getitem_def map_of_dict_set)
  obtain st' ret where r: "edit_spec environ py_str st0 spec wf_name step_name img = (st', Inr ret)"
      "subscript2 (view st' ret) ''parameters'' ''image'' =
         Inr (JStr (json_dumps True '','' '':'' img))"
    using run [of img] by blast
  have k: "\<forall>kvs. distinct (map fst kvs) \<longrightarrow>
        json_dumps True '','' '':'' (JDict kvs) =
          ''{'' @ str_join '',''
             (map (\<lambda>k. encode_basestring_ascii k @ '':'' @
                        json_dumps True '','' '':'' (the (map_of kvs k)))
                (sort (map fst kvs))) @ ''}''"
    using dict_text_in_key_order [of _ "'',''" "'':''"] by blast
  have l: "\<forall>xs. json_dumps True '','' '':'' (JList xs) =
        ''['' @ str_join '','' (map (json_dumps True '','' '':'') xs) @ '']''"
    by simp
  have w: "\<forall>c \<in> set (json_dumps True '','' '':'' img) \<inter> whitespace.
      c = CHR '' '' \<and> (\<exists>s \<in> set (strings_of img). c \<in> set s)"
    using json_dumps_whitespace [of _ img] by blast
  have v: "\<forall>img'. same_value img img' \<longrightarrow>
        (\<exists>st'' ret'.
           edit_spec environ py_str st0 spec wf_name step_name img' = (st'', Inr ret') \<and>
           subscript2 (view st'' ret') ''parameters'' ''image'' =
             subscript2 (view st' ret) ''parameters'' ''image'')"
  proof (intro allI impI)
    fix img'
    assume "same_value img img'"
    then have "json_dumps True '','' '':'' img = json_dumps True '','' '':'' img'"
      by (rule json_dumps_same_value)
    with run [of img'] r(2)
    show "\<exists>st'' ret'.
           edit_spec environ py_str st0 spec wf_name step_name img' = (st'', Inr ret') \<and>
           subscript2 (view st'' ret') ''parameters'' ''image'' =
             subscript2 (view st' ret) ''parameters'' ''image''"
      by auto
  qed
  have o: "\<forall>kvs kvs'. img = JDict kvs \<and> distinct (map fst kvs) \<and> distinct (map fst kvs') \<and>
        map_of kvs = map_of kvs' \<longrightarrow>
        (\<exists>st'' ret'.
           edit_spec environ py_str st0 spec wf_name step_name (JDict kvs') = (st'', Inr ret') \<and>
           subscript2 (view st'' ret') ''parameters'' ''image'' =
             subscript2 (view st' ret) ''parameters'' ''image'')"
  proof (intro allI impI)
    fix kvs kvs'
    assume a: "img = JDict kvs \<and> distinct (map fst kvs) \<and> distinct (map fst kvs') \<and>
        map_of kvs = map_of kvs'"
    then have "json_dumps True '','' '':'' (JDict kvs) = json_dumps True '','' '':'' (JDict kvs')"
      by (intro json_dumps_sorted_alist_eq) simp_all
    with run [of "JDict kvs'"] r(2) a
    show "\<exists>st'' ret'.
           edit_spec environ py_str st0 spec wf_name step_name (JDict kvs') = (st'', Inr ret') \<and>
           subscript2 (view st'' ret') ''parameters'' ''image'' =
             subscript2 (view st' ret) ''parameters'' ''image''"
      by auto
  qed
  from r k l w v o show ?thesis
    by (intro exI [of _ st'] exI [of _ ret] conjI)
qed

lemma example_image_same: "same_value example_image example_image_reordered"
  by (auto simp: example_image_def example_image_reordered_def)

lemma example_image_dumps: "json_dumps True '','' '':'' example_image = example_image_text"
  by code_simp

theorem image_parameter_canonical_witness:
  "\<exists>st' ret st'' ret'.
     edit_spec example_environ (\<lambda>v. []) (fst (new_dict empty_store example_items))
       (snd (new_dict empty_store example_items)) (JStr ''wf1'') (JStr ''step1'')
       example_image = (st', Inr ret) \<and>
     subscript2 (view st' ret) ''parameters'' ''image'' = Inr (JStr example_image_text) \<and>
     edit_spec example_environ (\<lambda>v. []) (fst (new_dict empty_store example_items))
       (snd (new_dict empty_store example_items)) (JStr ''wf1'') (JStr ''step1'')
       example_image_reordered = (st'', Inr ret') \<and>
     subscript2 (view st'' ret') ''parameters'' ''image'' = Inr (JStr example_image_text)"
  using image_parameter_canonical [OF example_loaded example_valid,
      of "\<lambda>v. []" "JStr ''wf1''" "JStr ''step1''" example_image]
proof (elim exE conjE)
  fix st' ret
  assume r: "edit_spec example_environ (\<lambda>v. []) (fst (new_dict empty_store example_items))
          (snd (new_dict empty_store example_items)) (JStr ''wf1'') (JStr ''step1'')
          example_image = (st', Inr ret)"
    and i: "subscript2 (view st' ret) ''parameters'' ''image'' =
         Inr (JStr (json_dumps True '','' '':'' example_image))"
    and v: "\<forall>img'. same_value example_image img' \<longrightarrow>
        (\<exists>st'' ret'.
           edit_spec example_environ (\<lambda>v. []) (fst (new_dict empty_store example_items))
             (snd (new_dict empty_store example_items)) (JStr ''wf1'') (JStr ''step1'')
             img' = (st'', Inr ret') \<and>
           subscript2 (view st'' ret') ''parameters'' ''image'' =
             subscript2 (view st' ret) ''parameters'' ''image'')"
  from v [rule_format, OF example_image_same] obtain st'' ret' where
    r': "edit_spec example_environ (\<lambda>v. []) (fst (new_dict empty_store example_items))
          (snd (new_dict empty_store example_items)) (JStr ''wf1'') (JStr ''step1'')
          example_image_reordered = (st'', Inr ret')"
      "subscript2 (view st'' ret') ''parameters'' ''image'' =
         subscript2 (view st' ret) ''parameters'' ''image''"
    by (elim exE conjE)
  have i': "subscript2 (view st' ret) ''parameters'' ''image'' = Inr (JStr example_image_text)"
    using i by (simp only: example_image_dumps)
  have i'': "subscript2 (view st'' ret') ''parameters'' ''image'' = Inr (JStr example_image_text)"
    using r'(2) i' by (rule trans)
  from r i' r'(1) i'' show ?thesis
    by (intro exI conjI)
qed

subsection \<open>The caller's dict after the call\<close>

text \<open>
  The caller's dict object keeps its keys and its references, so the new top-level key
  \<^verbatim>\<open>jobDefinitionName\<close> is not in it; but the objects it refers to are the ones the copy
  refers to, and the caller sees what lines 70 to 75 did to them.
\<close>

lemma edit_spec_shares_nested_objects:
  assumes "new_dict st d = (st0, spec)"
    and "subscript2 (JDict d) ''containerProperties'' ''environment'' = Inr (JList es)"
    and "subscript (JDict d) ''parameters'' = Inr (JDict ps)"
    and "subscript (JDict d) ''tags'' = Inr (JDict ts)"
    and "environ ''REGION'' = Some region" and "environ ''ACCT_NUM'' = Some acct_num"
  shows "\<exists>st' ret. edit_spec environ py_str st0 spec wf_name step_name img = (st', Inr ret) \<and>
     view st0 spec = JDict d \<and>
     dicts st' spec = dicts st0 spec \<and>
     subscript2 (view st' spec) ''containerProperties'' ''environment'' =
       Inr (JList (es @ appended wf_name step_name region acct_num)) \<and>
     subscript2 (view st' spec) ''parameters'' ''image'' =
       Inr (JStr (json_dumps True '','' '':'' img)) \<and>
     subscript2 (view st' spec) ''tags'' ''bclaw:workflow'' = Inr wf_name"
proof -
  obtain cp where cp: "map_of d ''containerProperties'' = Some (JDict cp)"
      "map_of cp ''environment'' = Some (JList es)"
    using assms(2) by (auto simp: subscript2_JDict)
  have ps: "map_of d ''parameters'' = Some (JDict ps)"
    and ts: "map_of d ''tags'' = Some (JDict ts)"
    using assms(3,4) by (simp_all add: subscript_JDict)
  obtain st' ret where r:
    "edit_spec environ py_str st0 spec wf_name step_name img = (st', Inr ret)"
    "subscript (view st' spec) ''containerProperties'' =
       Inr (JDict (dict_set ''environment''
              (JList (es @ appended wf_name step_name region acct_num)) cp))"
    "subscript (view st' spec) ''parameters'' =
       Inr (JDict (dict_set ''image'' (JStr (json_dumps True '','' '':'' img)) ps))"
    "subscript (view st' spec) ''tags'' = Inr (JDict (dict_set ''bclaw:workflow'' wf_name ts))"
    using edit_spec_loaded [OF assms(1) cp ps ts assms(5,6), of py_str wf_name step_name img]
    by auto
  have fr: "fresh st0 = Suc spec"
    using assms(1) by (auto simp: new_dict_def alloc_dict_def split: prod.splits)
  have "dicts st' spec = dicts st0 spec"
    using r(1) fr
    by (auto simp: edit_spec_def dict_copy_def alloc_dict_def alloc_cell_def dict_setitem_def
        attempt_def and_then_def nested_setitem_def Let_def
        split: sum.splits json.splits prod.splits)
  then show ?thesis
    using r view_new_dict [OF assms(1)]
    by (simp add: subscript2_def subscript_def getitem_def map_of_dict_set)
qed

text \<open>
  C3. On the smallest valid specification the caller's dict has, after the call, four
  environment entries, an \<^verbatim>\<open>image\<close> parameter and a \<^verbatim>\<open>bclaw:workflow\<close> tag that it did
  not have before the call.
\<close>

theorem edit_spec_changes_input:
  "case new_dict empty_store
          [(''containerProperties'', JDict [(''environment'', JList [])]),
           (''parameters'', JDict []),
           (''tags'', JDict [])] of
     (st0, spec0) \<Rightarrow>
       (case edit_spec example_environ (\<lambda>v. []) st0 spec0 (JStr ''wf1'') (JStr ''step1'')
               (JDict []) of
          (st', r) \<Rightarrow>
            r = Inr 4 \<and>
            view st' spec0 \<noteq> view st0 spec0 \<and>
            view st0 spec0 =
              JDict [(''containerProperties'', JDict [(''environment'', JList [])]),
                     (''parameters'', JDict []),
                     (''tags'', JDict [])] \<and>
            view st' spec0 =
              JDict [(''containerProperties'',
                        JDict [(''environment'',
                           JList [JDict [(''name'', JStr ''BC_WORKFLOW_NAME''),
                                         (''value'', JStr ''wf1'')],
                                  JDict [(''name'', JStr ''BC_STEP_NAME''),
                                         (''value'', JStr ''step1'')],
                                  JDict [(''name'', JStr ''AWS_DEFAULT_REGION''),
                                         (''value'', JStr ''us-east-1'')],
                                  JDict [(''name'', JStr ''AWS_ACCOUNT_ID''),
                                         (''value'', JStr ''123'')]])]),
                     (''parameters'', JDict [(''image'', JStr ''{}'')]),
                     (''tags'', JDict [(''bclaw:workflow'', JStr ''wf1'')])])"
  by code_simp

end
